theory Spec2Isabelle
  imports Main "HOL-Library.Word"
begin

text \<open>
  The WhatsApp ingestion of the CRM: \<open>MessageHandler.handleIncomingMessage\<close>
  (server/services/message-handler.ts), which receives the messages of the QR bridge, and
  the webhook of the cloud API (server/whatsapp/webhook.ts): \<open>verifySignature\<close> and the
  POST handler with its status updates and incoming messages. The database is a record of
  tables; each handler takes it and returns it as it is afterwards.
\<close>

section \<open>JavaScript helpers\<close>

text \<open>
  Strings are character lists. \<open>startsWith\<close>, \<open>includes\<close> and \<open>split(sep)[0]\<close> are the
  String methods the handlers call.
\<close>

definition startsWith :: "string \<Rightarrow> string \<Rightarrow> bool" where
  "startsWith s p = (take (length p) s = p)"

fun str_includes :: "string \<Rightarrow> string \<Rightarrow> bool" where
  "str_includes [] p = (p = [])"
| "str_includes (c # cs) p = (startsWith (c # cs) p \<or> str_includes cs p)"

definition split_first :: "char \<Rightarrow> string \<Rightarrow> string" where
  "split_first sep s = takeWhile (\<lambda>c. c \<noteq> sep) s"

text \<open>
  A possibly missing string read in a boolean position: \<open>undefined\<close>, \<open>null\<close> and the
  empty string are falsy. \<open>truthyStr x\<close> is the value of \<open>x ? String(x) : null\<close> and
  \<open>firstTruthy xs dflt\<close> the value of \<open>x1 || x2 || ... || dflt\<close>.
\<close>

definition truthyStr :: "string option \<Rightarrow> string option" where
  "truthyStr x = (case x of None \<Rightarrow> None | Some s \<Rightarrow> if s = [] then None else Some s)"

fun firstTruthy :: "string option list \<Rightarrow> string \<Rightarrow> string" where
  "firstTruthy [] dflt = dflt"
| "firstTruthy (x # xs) dflt =
     (case truthyStr x of Some s \<Rightarrow> s | None \<Rightarrow> firstTruthy xs dflt)"

text \<open>
  Exceptions are values. The two that the code can meet are both a \<open>RangeError\<close>:
  comparing buffers of different lengths, and serializing an Invalid Date.
\<close>

datatype js_error = RangeError

text \<open>
  \<open>new Date(ms)\<close>: a time value more than 8.64e15 ms away from the epoch gives an
  Invalid Date, here \<open>None\<close>.
\<close>

definition newDate :: "int \<Rightarrow> int option" where
  "newDate ms =
     (if - 8640000000000000 \<le> ms \<and> ms \<le> 8640000000000000 then Some ms else None)"

section \<open>Tables\<close>

text \<open>
  A table is the list of its rows, in insertion order. Timestamps are milliseconds since
  the epoch. Status columns hold the strings the code writes. A \<open>select ... limit 1\<close>
  is the first matching row; an \<open>update ... where\<close> rewrites every matching row.
\<close>

record lead =
  lead_id :: nat
  lead_name :: string
  lead_phone :: string
  lead_country :: string
  lead_pipelineStageId :: "nat option"
  lead_kanbanOrder :: int
  lead_source :: string
  lead_createdAt :: int
  lead_updatedAt :: int
  lead_lastContactedAt :: "int option"

record conversation =
  conv_id :: nat
  conv_channel :: string
  conv_whatsappNumberId :: nat
  conv_whatsappConnectionType :: string
  conv_externalChatId :: "string option"
  conv_leadId :: "nat option"
  conv_contactPhone :: string
  conv_contactName :: "string option"
  conv_unreadCount :: int
  conv_lastMessageAt :: "int option"
  conv_status :: string

record chatMessage =
  msg_id :: nat
  msg_conversationId :: nat
  msg_whatsappNumberId :: nat
  msg_whatsappConnectionType :: string
  msg_direction :: string
  msg_messageType :: string
  msg_content :: "string option"
  msg_mediaUrl :: "string option"
  msg_mediaMimeType :: "string option"
  msg_latitude :: "string option"
  msg_longitude :: "string option"
  msg_locationName :: "string option"
  msg_whatsappMessageId :: "string option"
  msg_status :: string
  msg_sentAt :: "int option"
  msg_deliveredAt :: "int option"
  msg_readAt :: "int option"
  msg_createdAt :: "int option"

record pipeline =
  pl_id :: nat
  pl_isDefault :: bool

record pipelineStage =
  ps_id :: nat
  ps_pipelineId :: nat
  ps_order :: int

record campaignRecipient =
  cr_id :: nat
  cr_campaignId :: nat
  cr_whatsappMessageId :: "string option"
  cr_status :: "string option"
  cr_sentAt :: "int option"
  cr_deliveredAt :: "int option"
  cr_readAt :: "int option"
  cr_errorMessage :: "string option"

record campaign =
  cp_id :: nat
  cp_messagesDelivered :: int
  cp_messagesRead :: int
  cp_messagesFailed :: int

record whatsappConnection =
  wc_phoneNumberId :: string
  wc_whatsappNumberId :: "nat option"

record db =
  leads :: "lead list"
  conversations :: "conversation list"
  chatMessages :: "chatMessage list"
  pipelines :: "pipeline list"
  pipelineStages :: "pipelineStage list"
  campaignRecipients :: "campaignRecipient list"
  campaigns :: "campaign list"
  whatsappConnections :: "whatsappConnection list"

text \<open>The id an auto-increment column gives the next inserted row.\<close>

definition nextId :: "nat list \<Rightarrow> nat" where
  "nextId ids = Suc (fold max ids 0)"

section \<open>The QR bridge: \<open>MessageHandler.handleIncomingMessage\<close>\<close>

datatype upsertType = Append | Notify

record wa_key =
  remoteJid :: "string option"
  key_id :: string
  fromMe :: bool

record media_message =
  caption :: "string option"

text \<open>
  \<open>message.message\<close> of the bridge: the fields the handler reads, and four kinds
  (\<open>locationMessage\<close>, \<open>contactMessage\<close>, \<open>reactionMessage\<close>,
  \<open>pollCreationMessage\<close>) that it never looks at. \<open>extendedTextMessage\<close> holds
  \<open>extendedTextMessage?.text\<close>; for audio, document and sticker only the presence of the
  field is read.
\<close>

record wa_content =
  conversation :: "string option"
  extendedTextMessage :: "string option"
  imageMessage :: "media_message option"
  videoMessage :: "media_message option"
  audioMessage :: bool
  documentMessage :: bool
  stickerMessage :: bool
  locationMessage :: "(string \<times> string) option"
  contactMessage :: "string option"
  reactionMessage :: "string option"
  pollCreationMessage :: "string option"

record wa_message =
  wm_key :: wa_key
  wm_message :: "wa_content option"
  wm_messageTimestamp :: "int option"
  wm_pushName :: "string option"

definition captionOf :: "media_message option \<Rightarrow> string option" where
  "captionOf m = (case m of None \<Rightarrow> None | Some x \<Rightarrow> caption x)"

definition placeholder :: "bool \<Rightarrow> string \<Rightarrow> string option" where
  "placeholder present label = (if present then Some label else None)"

definition messageText :: "wa_content option \<Rightarrow> string" where
  "messageText mo =
     (case mo of
        None \<Rightarrow> ''Media/Unknown''
      | Some c \<Rightarrow>
          firstTruthy
            [conversation c,
             extendedTextMessage c,
             captionOf (imageMessage c),
             captionOf (videoMessage c),
             placeholder (imageMessage c \<noteq> None) ''Image'',
             placeholder (videoMessage c \<noteq> None) ''Video'',
             placeholder (audioMessage c) ''Audio'',
             placeholder (documentMessage c) ''Document'',
             placeholder (stickerMessage c) ''Sticker'']
            ''Media/Unknown'')"

definition detectType :: "wa_content option \<Rightarrow> string" where
  "detectType mo =
     (case mo of
        None \<Rightarrow> ''text''
      | Some c \<Rightarrow>
          if imageMessage c \<noteq> None then ''image''
          else if videoMessage c \<noteq> None then ''video''
          else if audioMessage c then ''audio''
          else if documentMessage c then ''document''
          else if stickerMessage c then ''sticker''
          else ''text'')"

text \<open>
  \<open>message.messageTimestamp ? new Date(Number(ts) * 1000) : new Date()\<close>: the timestamp
  is in seconds, a missing or zero value means now, and a value out of the range of a Date
  gives an Invalid Date (\<open>None\<close>).
\<close>

definition messageTime :: "int \<Rightarrow> int option \<Rightarrow> int option" where
  "messageTime now t =
     (case t of None \<Rightarrow> Some now | Some s \<Rightarrow> if s = 0 then Some now else newDate (s * 1000))"

definition isSkippedJid :: "string \<Rightarrow> bool" where
  "isSkippedJid jid =
     (jid = [] \<or> str_includes jid ''status@broadcast'' \<or> str_includes jid ''@lid'')"

definition existsQrMessage :: "string \<Rightarrow> chatMessage list \<Rightarrow> bool" where
  "existsQrMessage wid ms =
     (find (\<lambda>m. msg_whatsappMessageId m = Some wid \<and> msg_whatsappConnectionType m = ''qr'') ms
        \<noteq> None)"

subsection \<open>Lead: find or create\<close>

fun sqlMax :: "int list \<Rightarrow> int option" where
  "sqlMax [] = None"
| "sqlMax (x # xs) = Some (fold max xs x)"

fun firstByOrder :: "pipelineStage list \<Rightarrow> pipelineStage option" where
  "firstByOrder [] = None"
| "firstByOrder (s # ss) =
     (case firstByOrder ss of
        None \<Rightarrow> Some s
      | Some t \<Rightarrow> if ps_order s \<le> ps_order t then Some s else Some t)"

text \<open>
  The default placement of a new lead: \<open>(stageId, nextOrder)\<close>, starting from
  \<open>(null, 0)\<close> as the code's two \<open>let\<close>s do.
\<close>

definition stagesOf :: "pipeline \<Rightarrow> db \<Rightarrow> pipelineStage list" where
  "stagesOf p d = filter (\<lambda>s. ps_pipelineId s = pl_id p) (pipelineStages d)"

definition kanbanOrdersIn :: "nat \<Rightarrow> db \<Rightarrow> int list" where
  "kanbanOrdersIn stageId d =
     map lead_kanbanOrder (filter (\<lambda>l. lead_pipelineStageId l = Some stageId) (leads d))"

definition defaultPlacement :: "db \<Rightarrow> nat option \<times> int" where
  "defaultPlacement d =
     (case find pl_isDefault (pipelines d) of
        None \<Rightarrow> (None, 0)
      | Some p \<Rightarrow>
          (case firstByOrder (stagesOf p d) of
             None \<Rightarrow> (None, 0)
           | Some s \<Rightarrow>
               (Some (ps_id s),
                (case sqlMax (kanbanOrdersIn (ps_id s) d) of
                   None \<Rightarrow> 0
                 | Some m \<Rightarrow> m) + 1)))"

definition newLead :: "int \<Rightarrow> db \<Rightarrow> string \<Rightarrow> string \<Rightarrow> int \<Rightarrow> lead" where
  "newLead now d phoneNumber contactName messageTimestamp =
     \<lparr> lead_id = nextId (map lead_id (leads d)),
       lead_name = (if contactName \<noteq> ''Unknown'' then contactName else phoneNumber),
       lead_phone = phoneNumber,
       lead_country = ''Unknown'',
       lead_pipelineStageId = fst (defaultPlacement d),
       lead_kanbanOrder = snd (defaultPlacement d),
       lead_source = ''whatsapp_inbound'',
       lead_createdAt = now,
       lead_updatedAt = now,
       lead_lastContactedAt = Some messageTimestamp \<rparr>"

definition touchLead :: "int \<Rightarrow> nat \<Rightarrow> lead \<Rightarrow> lead" where
  "touchLead now leadId l =
     (if lead_id l = leadId then l\<lparr>lead_lastContactedAt := Some now\<rparr> else l)"

definition findLeadByPhone :: "string \<Rightarrow> db \<Rightarrow> lead option" where
  "findLeadByPhone phoneNumber d = find (\<lambda>l. lead_phone l = phoneNumber) (leads d)"

text \<open>
  Step 2 of the handler (lines 52-99): the lead id and the database afterwards, or the
  exception of the insert, which is given the message time for \<open>lastContactedAt\<close> and
  throws on an Invalid Date before a row is written.
\<close>

definition resolveLead ::
  "int \<Rightarrow> upsertType \<Rightarrow> string \<Rightarrow> string \<Rightarrow> int option \<Rightarrow> db \<Rightarrow> js_error + nat \<times> db" where
  "resolveLead now upsert phoneNumber contactName messageTimestamp d =
     (case findLeadByPhone phoneNumber d of
        Some l \<Rightarrow>
          Inr (lead_id l,
               if upsert = Notify
               then d\<lparr>leads := map (touchLead now (lead_id l)) (leads d)\<rparr>
               else d)
      | None \<Rightarrow>
          (case messageTimestamp of
             None \<Rightarrow> Inl RangeError
           | Some ts \<Rightarrow>
               Inr (lead_id (newLead now d phoneNumber contactName ts),
                    d\<lparr>leads := leads d @ [newLead now d phoneNumber contactName ts]\<rparr>)))"

subsection \<open>Conversation: find or create, and the merge on an existing one\<close>

definition isQrConversation :: "nat \<Rightarrow> nat \<Rightarrow> string \<Rightarrow> conversation \<Rightarrow> bool" where
  "isQrConversation leadId userId jid c =
     (conv_leadId c = Some leadId \<and> conv_whatsappNumberId c = userId
      \<and> conv_channel c = ''whatsapp'' \<and> conv_whatsappConnectionType c = ''qr''
      \<and> conv_externalChatId c = Some jid)"

definition findQrConversation :: "nat \<Rightarrow> nat \<Rightarrow> string \<Rightarrow> db \<Rightarrow> conversation option" where
  "findQrConversation leadId userId jid d =
     find (isQrConversation leadId userId jid) (conversations d)"

text \<open>
  The \<open>updates\<close> object built from the found row (lines 120-133), as the assignment it
  makes to a row. \<open>unreadCount\<close> is a number column, so \<open>unreadCount || 0\<close> is the count
  itself. An Invalid Date is never later than a date; when it is put into the object the
  update throws.
\<close>

definition conversationUpdates ::
  "int \<Rightarrow> upsertType \<Rightarrow> bool \<Rightarrow> int option \<Rightarrow> conversation
     \<Rightarrow> js_error + (conversation \<Rightarrow> conversation)" where
  "conversationUpdates now upsert fromMe' messageTimestamp c =
     (if upsert = Notify \<and> \<not> fromMe'
      then Inr (\<lambda>r. r\<lparr>conv_unreadCount := conv_unreadCount c + 1,
                       conv_lastMessageAt := Some now,
                       conv_status := ''active''\<rparr>)
      else if upsert = Append \<or> fromMe'
      then (case conv_lastMessageAt c of
              None \<Rightarrow>
                (case messageTimestamp of
                   None \<Rightarrow> Inl RangeError
                 | Some ts \<Rightarrow> Inr (\<lambda>r. r\<lparr>conv_lastMessageAt := Some ts\<rparr>))
            | Some cur \<Rightarrow>
                (case messageTimestamp of
                   None \<Rightarrow> Inr (\<lambda>r. r)
                 | Some ts \<Rightarrow>
                     if ts > cur then Inr (\<lambda>r. r\<lparr>conv_lastMessageAt := Some ts\<rparr>)
                     else Inr (\<lambda>r. r)))
      else Inr (\<lambda>r. r))"

definition newQrConversation ::
  "db \<Rightarrow> nat \<Rightarrow> string \<Rightarrow> nat \<Rightarrow> string \<Rightarrow> string \<Rightarrow> upsertType \<Rightarrow> bool \<Rightarrow> int
     \<Rightarrow> conversation" where
  "newQrConversation d userId jid leadId phoneNumber contactName upsert fromMe' messageTimestamp =
     \<lparr> conv_id = nextId (map conv_id (conversations d)),
       conv_channel = ''whatsapp'',
       conv_whatsappNumberId = userId,
       conv_whatsappConnectionType = ''qr'',
       conv_externalChatId = Some jid,
       conv_leadId = Some leadId,
       conv_contactPhone = phoneNumber,
       conv_contactName = Some contactName,
       conv_unreadCount = (if upsert = Notify \<and> \<not> fromMe' then 1 else 0),
       conv_lastMessageAt = Some messageTimestamp,
       conv_status = ''active'' \<rparr>"

text \<open>
  Step 3 (lines 103-153): the conversation id and the database afterwards, or the
  exception of the update or of the insert.
\<close>

definition resolveConversation ::
  "int \<Rightarrow> nat \<Rightarrow> string \<Rightarrow> nat \<Rightarrow> string \<Rightarrow> string \<Rightarrow> upsertType \<Rightarrow> bool \<Rightarrow> int option \<Rightarrow> db
     \<Rightarrow> js_error + nat \<times> db" where
  "resolveConversation now userId jid leadId phoneNumber contactName upsert fromMe' messageTimestamp d =
     (case findQrConversation leadId userId jid d of
        Some c \<Rightarrow>
          (case conversationUpdates now upsert fromMe' messageTimestamp c of
             Inl err \<Rightarrow> Inl err
           | Inr updates \<Rightarrow>
               Inr (conv_id c,
                    d\<lparr>conversations :=
                        map (\<lambda>r. if conv_id r = conv_id c then updates r else r)
                          (conversations d)\<rparr>))
      | None \<Rightarrow>
          (case messageTimestamp of
             None \<Rightarrow> Inl RangeError
           | Some ts \<Rightarrow>
               Inr (conv_id (newQrConversation d userId jid leadId phoneNumber contactName
                               upsert fromMe' ts),
                    d\<lparr>conversations := conversations d @
                        [newQrConversation d userId jid leadId phoneNumber contactName upsert
                           fromMe' ts]\<rparr>)))"

subsection \<open>The message row and the handler\<close>

text \<open>The inserted row; \<open>rowId\<close> is the id the table gives it.\<close>

definition qrChatMessage ::
  "int \<Rightarrow> nat \<Rightarrow> nat \<Rightarrow> nat \<Rightarrow> wa_message \<Rightarrow> int \<Rightarrow> chatMessage" where
  "qrChatMessage now rowId conversationId userId m messageTimestamp =
     \<lparr> msg_id = rowId,
       msg_conversationId = conversationId,
       msg_whatsappNumberId = userId,
       msg_whatsappConnectionType = ''qr'',
       msg_direction = (if fromMe (wm_key m) then ''outbound'' else ''inbound''),
       msg_messageType = detectType (wm_message m),
       msg_content = Some (messageText (wm_message m)),
       msg_mediaUrl = None,
       msg_mediaMimeType = None,
       msg_latitude = None,
       msg_longitude = None,
       msg_locationName = None,
       msg_whatsappMessageId = Some (key_id (wm_key m)),
       msg_status = (if fromMe (wm_key m) then ''sent'' else ''delivered''),
       msg_sentAt = Some messageTimestamp,
       msg_deliveredAt = (if fromMe (wm_key m) then None else Some messageTimestamp),
       msg_readAt = None,
       msg_createdAt = Some now \<rparr>"

text \<open>
  Step 4 (lines 167-179): the insert is given the message time for \<open>sentAt\<close> and throws
  on an Invalid Date.
\<close>

definition insertChatMessage ::
  "int \<Rightarrow> nat \<Rightarrow> nat \<Rightarrow> wa_message \<Rightarrow> int option \<Rightarrow> db \<Rightarrow> js_error + db" where
  "insertChatMessage now conversationId userId m messageTimestamp d =
     (case messageTimestamp of
        None \<Rightarrow> Inl RangeError
      | Some ts \<Rightarrow>
          Inr (d\<lparr>chatMessages := chatMessages d @
                   [qrChatMessage now (nextId (map msg_id (chatMessages d))) conversationId
                      userId m ts]\<rparr>))"

definition phoneOfJid :: "string \<Rightarrow> string" where
  "phoneOfJid jid = CHR ''+'' # split_first CHR ''@'' jid"

definition contactNameOf :: "wa_message \<Rightarrow> string" where
  "contactNameOf m = firstTruthy [wm_pushName m] ''Unknown''"

text \<open>
  \<open>handleIncomingMessage now userId message upsertType\<close>; \<open>now\<close> is the wall clock of
  the call. The steps are the source's: the identity filter, the duplicate check on
  \<open>(message.key.id, qr)\<close>, then inside \<open>try\<close> the lead, the conversation and the message
  row. A step that throws is caught (lines 183-185) and the handler returns with what
  the earlier steps have written. The exception modelled is the one the handler's own
  values can cause, an Invalid Date in a statement; the database itself is taken to be
  available and to accept the rows.
\<close>

definition handleIncomingMessage :: "int \<Rightarrow> nat \<Rightarrow> wa_message \<Rightarrow> upsertType \<Rightarrow> db \<Rightarrow> db" where
  "handleIncomingMessage now userId m upsert d =
     (case remoteJid (wm_key m) of
        None \<Rightarrow> d
      | Some jid \<Rightarrow>
          if isSkippedJid jid then d
          else if existsQrMessage (key_id (wm_key m)) (chatMessages d) then d
          else
            (let messageTimestamp = messageTime now (wm_messageTimestamp m);
                 phoneNumber = phoneOfJid jid;
                 contactName = contactNameOf m
             in case resolveLead now upsert phoneNumber contactName messageTimestamp d of
                  Inl err \<Rightarrow> d
                | Inr (leadId, d1) \<Rightarrow>
                    (case resolveConversation now userId jid leadId phoneNumber contactName
                            upsert (fromMe (wm_key m)) messageTimestamp d1 of
                       Inl err \<Rightarrow> d1
                     | Inr (conversationId, d2) \<Rightarrow>
                         (case insertChatMessage now conversationId userId m messageTimestamp
                                 d2 of
                            Inl err \<Rightarrow> d2
                          | Inr d3 \<Rightarrow> d3))))"

section \<open>The cloud webhook: signature\<close>

type_synonym byte = "8 word"

text \<open>
  \<open>digest("hex")\<close> writes two lower-case hexadecimal digits per byte.
  \<open>Buffer.from(s, "hex")\<close> reads \<open>s\<close> two characters at a time and stops at the first
  pair that is not two hexadecimal digits (either case), or at a single last character.
\<close>

definition hexDigit :: "nat \<Rightarrow> char" where
  "hexDigit n = ''0123456789abcdef'' ! n"

definition hexOfByte :: "byte \<Rightarrow> string" where
  "hexOfByte b = [hexDigit (unat b div 16), hexDigit (unat b mod 16)]"

definition digestHex :: "byte list \<Rightarrow> string" where
  "digestHex bs = concat (map hexOfByte bs)"

definition unhex :: "char \<Rightarrow> nat option" where
  "unhex c =
     (let n = (of_char c :: nat) in
      if 48 \<le> n \<and> n \<le> 57 then Some (n - 48)
      else if 97 \<le> n \<and> n \<le> 102 then Some (n - 87)
      else if 65 \<le> n \<and> n \<le> 70 then Some (n - 55)
      else None)"

fun bufferFromHex :: "string \<Rightarrow> byte list" where
  "bufferFromHex (a # b # rest) =
     (case unhex a of
        None \<Rightarrow> []
      | Some x \<Rightarrow>
          (case unhex b of
             None \<Rightarrow> []
           | Some y \<Rightarrow> of_nat (x * 16 + y) # bufferFromHex rest))"
| "bufferFromHex [a] = []"
| "bufferFromHex [] = []"

text \<open>\<open>crypto.timingSafeEqual\<close> throws on buffers of different lengths.\<close>

definition timingSafeEqual :: "byte list \<Rightarrow> byte list \<Rightarrow> js_error + bool" where
  "timingSafeEqual a b = (if length a \<noteq> length b then Inl RangeError else Inr (a = b))"

record env =
  whatsappAppSecret :: "string option"

record status_event =
  st_id :: "string option"
  st_status :: "string option"

record wa_contact =
  wa_id :: "string option"
  profile_name :: "string option"

record cloud_media =
  md_caption :: "string option"
  md_id :: "string option"
  md_mime_type :: "string option"

record cloud_location =
  loc_latitude :: "string option"
  loc_longitude :: "string option"
  loc_name :: "string option"
  loc_address :: "string option"

text \<open>
  One element of \<open>value.messages\<close>. \<open>cm_media\<close> holds the sub-objects \<open>m.image\<close>,
  \<open>m.video\<close>, ... under their keys, so that \<open>m[msgType]\<close> is a lookup.
\<close>

record cloud_message =
  cm_type :: "string option"
  cm_id :: "string option"
  cm_from :: "string option"
  cm_text_body :: "string option"
  cm_media :: "(string \<times> cloud_media) list"
  cm_location :: "cloud_location option"
  cm_contacts :: "string list option"

record change_value =
  cv_phone_number_id :: "string option"
  cv_statuses :: "status_event list"
  cv_messages :: "cloud_message list"
  cv_contacts :: "wa_contact list"

record request =
  req_signature :: "string option"
  req_rawBody :: "byte list option"
  req_entry :: "change_value list list"

text \<open>
  \<open>verifySignature(req)\<close>. The HMAC-SHA256 of node:crypto is the parameter
  \<open>hmacSha256 secret body\<close>; the exception of \<open>timingSafeEqual\<close> is caught and gives
  \<open>false\<close>.
\<close>

definition verifySignature ::
  "(string \<Rightarrow> byte list \<Rightarrow> byte list) \<Rightarrow> env \<Rightarrow> request \<Rightarrow> bool" where
  "verifySignature hmacSha256 e req =
     (case truthyStr (whatsappAppSecret e) of
        None \<Rightarrow> True
      | Some secret \<Rightarrow>
          (let header = (case req_signature req of None \<Rightarrow> [] | Some h \<Rightarrow> h) in
           if startsWith header ''sha256=''
           then (case req_rawBody req of
                   None \<Rightarrow> False
                 | Some raw \<Rightarrow>
                     if raw = [] then False
                     else (case timingSafeEqual
                                  (bufferFromHex (drop (length ''sha256='') header))
                                  (bufferFromHex (digestHex (hmacSha256 secret raw))) of
                             Inl err \<Rightarrow> False
                           | Inr same \<Rightarrow> same))
           else False))"

section \<open>The cloud webhook: status updates\<close>

definition statusPatch :: "int \<Rightarrow> string \<Rightarrow> chatMessage \<Rightarrow> chatMessage" where
  "statusPatch now status m =
     (if status = ''sent'' then m\<lparr>msg_status := ''sent'', msg_sentAt := Some now\<rparr>
      else if status = ''delivered''
      then m\<lparr>msg_status := ''delivered'', msg_deliveredAt := Some now\<rparr>
      else if status = ''read'' then m\<lparr>msg_status := ''read'', msg_readAt := Some now\<rparr>
      else if status = ''failed'' then m\<lparr>msg_status := ''failed''\<rparr>
      else m)"

definition updateMessageStatus :: "int \<Rightarrow> string \<Rightarrow> string \<Rightarrow> db \<Rightarrow> db" where
  "updateMessageStatus now msgId status d =
     d\<lparr>chatMessages :=
         map (\<lambda>m. if msg_whatsappMessageId m = Some msgId then statusPatch now status m else m)
           (chatMessages d)\<rparr>"

definition updateRecipient ::
  "nat \<Rightarrow> (campaignRecipient \<Rightarrow> campaignRecipient) \<Rightarrow> db \<Rightarrow> db" where
  "updateRecipient rid f d =
     d\<lparr>campaignRecipients :=
         map (\<lambda>r. if cr_id r = rid then f r else r) (campaignRecipients d)\<rparr>"

definition updateCampaign :: "nat \<Rightarrow> (campaign \<Rightarrow> campaign) \<Rightarrow> db \<Rightarrow> db" where
  "updateCampaign cid f d =
     d\<lparr>campaigns := map (\<lambda>c. if cp_id c = cid then f c else c) (campaigns d)\<rparr>"

definition incDelivered :: "campaign \<Rightarrow> campaign" where
  "incDelivered c = c\<lparr>cp_messagesDelivered := cp_messagesDelivered c + 1\<rparr>"

definition incRead :: "campaign \<Rightarrow> campaign" where
  "incRead c = c\<lparr>cp_messagesRead := cp_messagesRead c + 1\<rparr>"

definition incFailed :: "campaign \<Rightarrow> campaign" where
  "incFailed c = c\<lparr>cp_messagesFailed := cp_messagesFailed c + 1\<rparr>"

text \<open>
  The campaign part of one status event: the recipient row linked to the message id, its
  current status (\<open>pending\<close> when null), and the guarded transitions.
\<close>

definition findRecipient :: "string \<Rightarrow> db \<Rightarrow> campaignRecipient option" where
  "findRecipient msgId d =
     find (\<lambda>r. cr_whatsappMessageId r = Some msgId) (campaignRecipients d)"

definition currentStatus :: "campaignRecipient \<Rightarrow> string" where
  "currentStatus r = (case cr_status r of None \<Rightarrow> ''pending'' | Some s \<Rightarrow> s)"

definition trackCampaign :: "int \<Rightarrow> string \<Rightarrow> string \<Rightarrow> db \<Rightarrow> db" where
  "trackCampaign now msgId status d =
     (case findRecipient msgId d of
        None \<Rightarrow> d
      | Some rec \<Rightarrow>
          (let current = currentStatus rec;
               campaignId = cr_campaignId rec
           in
           if status = ''delivered'' then
             (if current \<noteq> ''delivered'' \<and> current \<noteq> ''read''
              then updateCampaign campaignId incDelivered
                     (updateRecipient (cr_id rec)
                        (\<lambda>r. r\<lparr>cr_status := Some ''delivered'', cr_deliveredAt := Some now\<rparr>) d)
              else d)
           else if status = ''read'' then
             (if current \<noteq> ''read''
              then updateCampaign campaignId incRead
                     ((if current \<noteq> ''delivered''
                       then updateCampaign campaignId incDelivered
                       else (\<lambda>x. x))
                        (updateRecipient (cr_id rec)
                           (\<lambda>r. r\<lparr>cr_status := Some ''read'', cr_readAt := Some now\<rparr>) d))
              else d)
           else if status = ''failed'' then
             (if current \<noteq> ''failed''
              then updateCampaign campaignId incFailed
                     (updateRecipient (cr_id rec)
                        (\<lambda>r. r\<lparr>cr_status := Some ''failed'',
                                cr_errorMessage := Some ''Meta status failed''\<rparr>) d)
              else d)
           else if status = ''sent'' then
             (if current = ''pending''
              then updateRecipient (cr_id rec)
                     (\<lambda>r. r\<lparr>cr_status := Some ''sent'', cr_sentAt := Some now\<rparr>) d
              else d)
           else d))"

definition strOrEmpty :: "string option \<Rightarrow> string" where
  "strOrEmpty x = (case x of None \<Rightarrow> [] | Some s \<Rightarrow> s)"

definition processStatus :: "int \<Rightarrow> status_event \<Rightarrow> db \<Rightarrow> db" where
  "processStatus now st d =
     (let msgId = strOrEmpty (st_id st); status = strOrEmpty (st_status st) in
      if msgId = [] then d
      else trackCampaign now msgId status (updateMessageStatus now msgId status d))"

definition processStatuses :: "int \<Rightarrow> status_event list \<Rightarrow> db \<Rightarrow> db" where
  "processStatuses now statuses d = fold (processStatus now) statuses d"

section \<open>The cloud webhook: incoming messages\<close>

datatype json_arg = JMessage cloud_message | JContacts "string list"

record normalized =
  n_messageType :: string
  n_content :: "string option"
  n_mediaUrl :: "string option"
  n_mediaMimeType :: "string option"
  n_latitude :: "string option"
  n_longitude :: "string option"
  n_locationName :: "string option"

definition emptyNormalized :: normalized where
  "emptyNormalized =
     \<lparr> n_messageType = ''text'', n_content = None, n_mediaUrl = None, n_mediaMimeType = None,
       n_latitude = None, n_longitude = None, n_locationName = None \<rparr>"

definition mediaField :: "cloud_message \<Rightarrow> string \<Rightarrow> (cloud_media \<Rightarrow> string option) \<Rightarrow> string option" where
  "mediaField m k f = (case map_of (cm_media m) k of None \<Rightarrow> None | Some x \<Rightarrow> truthyStr (f x))"

text \<open>
  The branch on \<open>m.type\<close> inside the message loop; \<open>JSON.stringify\<close> is the parameter
  \<open>stringify\<close>.
\<close>

definition normalizeMessage :: "(json_arg \<Rightarrow> string) \<Rightarrow> cloud_message \<Rightarrow> normalized" where
  "normalizeMessage stringify m =
     (let msgType = (case cm_type m of None \<Rightarrow> ''text'' | Some t \<Rightarrow> t) in
      if msgType = ''text''
      then emptyNormalized\<lparr>n_messageType := ''text'', n_content := truthyStr (cm_text_body m)\<rparr>
      else if msgType = ''image'' \<or> msgType = ''video'' \<or> msgType = ''audio''
              \<or> msgType = ''document'' \<or> msgType = ''sticker''
      then emptyNormalized\<lparr>n_messageType := msgType,
             n_content := mediaField m msgType md_caption,
             n_mediaUrl := mediaField m msgType md_id,
             n_mediaMimeType := mediaField m msgType md_mime_type\<rparr>
      else if msgType = ''location''
      then (case cm_location m of
              None \<Rightarrow> emptyNormalized\<lparr>n_messageType := ''location''\<rparr>
            | Some loc \<Rightarrow>
                emptyNormalized\<lparr>n_messageType := ''location'',
                  n_latitude := loc_latitude loc,
                  n_longitude := loc_longitude loc,
                  n_locationName := truthyStr (loc_name loc),
                  n_content := truthyStr (loc_address loc)\<rparr>)
      else if msgType = ''contacts''
      then emptyNormalized\<lparr>n_messageType := ''contact'',
             n_content := Some (stringify (JContacts
                (case cm_contacts m of None \<Rightarrow> [] | Some cs \<Rightarrow> cs)))\<rparr>
      else emptyNormalized\<lparr>n_messageType := ''text'',
             n_content := Some (stringify (JMessage m))\<rparr>)"

text \<open>
  The row of the insert, with the id the table gives it; columns the statement does not
  name are \<open>None\<close>.
\<close>

definition apiChatMessage ::
  "int \<Rightarrow> (json_arg \<Rightarrow> string) \<Rightarrow> nat \<Rightarrow> nat \<Rightarrow> nat \<Rightarrow> cloud_message \<Rightarrow> chatMessage" where
  "apiChatMessage now stringify rowId conversationId whatsappNumberId m =
     (let n = normalizeMessage stringify m in
      \<lparr> msg_id = rowId,
        msg_conversationId = conversationId,
        msg_whatsappNumberId = whatsappNumberId,
        msg_whatsappConnectionType = ''api'',
        msg_direction = ''inbound'',
        msg_messageType = n_messageType n,
        msg_content = n_content n,
        msg_mediaUrl = n_mediaUrl n,
        msg_mediaMimeType = n_mediaMimeType n,
        msg_latitude = n_latitude n,
        msg_longitude = n_longitude n,
        msg_locationName = n_locationName n,
        msg_whatsappMessageId = truthyStr (cm_id m),
        msg_status = ''delivered'',
        msg_sentAt = None,
        msg_deliveredAt = Some now,
        msg_readAt = None,
        msg_createdAt = None \<rparr>)"

definition insertApiMessage ::
  "int \<Rightarrow> (json_arg \<Rightarrow> string) \<Rightarrow> nat \<Rightarrow> nat \<Rightarrow> cloud_message \<Rightarrow> db \<Rightarrow> db" where
  "insertApiMessage now stringify conversationId whatsappNumberId m d =
     d\<lparr>chatMessages := chatMessages d @
         [apiChatMessage now stringify (nextId (map msg_id (chatMessages d))) conversationId
            whatsappNumberId m]\<rparr>"

definition contactPhoneOf :: "change_value \<Rightarrow> string" where
  "contactPhoneOf v =
     (let fromFirst = (case cv_messages v of [] \<Rightarrow> [] | m # ms \<Rightarrow> strOrEmpty (cm_from m)) in
      case cv_contacts v of
        [] \<Rightarrow> fromFirst
      | c # cs \<Rightarrow> (case wa_id c of None \<Rightarrow> fromFirst | Some w \<Rightarrow> w))"

definition contactNameOfChange :: "change_value \<Rightarrow> string option" where
  "contactNameOfChange v =
     (case cv_contacts v of [] \<Rightarrow> None | c # cs \<Rightarrow> truthyStr (profile_name c))"

definition isApiConversation :: "nat \<Rightarrow> string \<Rightarrow> conversation \<Rightarrow> bool" where
  "isApiConversation whatsappNumberId contactPhone c =
     (conv_whatsappNumberId c = whatsappNumberId \<and> conv_contactPhone c = contactPhone)"

definition findApiConversation :: "nat \<Rightarrow> string \<Rightarrow> db \<Rightarrow> conversation option" where
  "findApiConversation whatsappNumberId contactPhone d =
     find (isApiConversation whatsappNumberId contactPhone) (conversations d)"

text \<open>\<open>convo[0]?.id\<close>, read in a boolean position: a missing row and the id 0 are falsy.\<close>

definition foundConversationId :: "nat \<Rightarrow> string \<Rightarrow> db \<Rightarrow> nat option" where
  "foundConversationId whatsappNumberId contactPhone d =
     (case findApiConversation whatsappNumberId contactPhone d of
        None \<Rightarrow> None
      | Some c \<Rightarrow> if conv_id c = 0 then None else Some (conv_id c))"

definition newApiConversation :: "int \<Rightarrow> db \<Rightarrow> nat \<Rightarrow> string \<Rightarrow> string option \<Rightarrow> conversation" where
  "newApiConversation now d whatsappNumberId contactPhone contactName =
     \<lparr> conv_id = nextId (map conv_id (conversations d)),
       conv_channel = ''whatsapp'',
       conv_whatsappNumberId = whatsappNumberId,
       conv_whatsappConnectionType = ''api'',
       conv_externalChatId = None,
       conv_leadId = None,
       conv_contactPhone = contactPhone,
       conv_contactName = contactName,
       conv_unreadCount = 1,
       conv_lastMessageAt = Some now,
       conv_status = ''active'' \<rparr>"

definition bumpApiConversation :: "int \<Rightarrow> string option \<Rightarrow> conversation \<Rightarrow> conversation" where
  "bumpApiConversation now contactName c =
     c\<lparr>conv_contactName := (case contactName of None \<Rightarrow> conv_contactName c | Some n \<Rightarrow> Some n),
       conv_lastMessageAt := Some now,
       conv_unreadCount := conv_unreadCount c + 1\<rparr>"

definition upsertApiConversation ::
  "int \<Rightarrow> nat \<Rightarrow> string \<Rightarrow> string option \<Rightarrow> db \<Rightarrow> nat \<times> db" where
  "upsertApiConversation now whatsappNumberId contactPhone contactName d =
     (case foundConversationId whatsappNumberId contactPhone d of
        None \<Rightarrow>
          (conv_id (newApiConversation now d whatsappNumberId contactPhone contactName),
           d\<lparr>conversations := conversations d @
               [newApiConversation now d whatsappNumberId contactPhone contactName]\<rparr>)
      | Some conversationId \<Rightarrow>
          (conversationId,
           d\<lparr>conversations :=
               map (\<lambda>r. if conv_id r = conversationId
                         then bumpApiConversation now contactName r else r)
                 (conversations d)\<rparr>))"

definition processMessages ::
  "int \<Rightarrow> (json_arg \<Rightarrow> string) \<Rightarrow> nat \<Rightarrow> change_value \<Rightarrow> db \<Rightarrow> db" where
  "processMessages now stringify whatsappNumberId v d =
     (if cv_messages v = [] then d
      else if contactPhoneOf v = [] then d
      else
        (let (conversationId, d1) =
               upsertApiConversation now whatsappNumberId (contactPhoneOf v)
                 (contactNameOfChange v) d
         in fold (insertApiMessage now stringify conversationId whatsappNumberId)
              (cv_messages v) d1))"

definition getWhatsappNumberIdByPhoneNumberId :: "string \<Rightarrow> db \<Rightarrow> nat option" where
  "getWhatsappNumberIdByPhoneNumberId phoneNumberId d =
     (case find (\<lambda>c. wc_phoneNumberId c = phoneNumberId) (whatsappConnections d) of
        None \<Rightarrow> None
      | Some c \<Rightarrow> wc_whatsappNumberId c)"

text \<open>One \<open>change\<close> of an entry: routing, then the statuses, then the messages.\<close>

definition processChange :: "int \<Rightarrow> (json_arg \<Rightarrow> string) \<Rightarrow> change_value \<Rightarrow> db \<Rightarrow> db" where
  "processChange now stringify v d =
     (case truthyStr (cv_phone_number_id v) of
        None \<Rightarrow> d
      | Some phoneNumberId \<Rightarrow>
          (case getWhatsappNumberIdByPhoneNumberId phoneNumberId d of
             None \<Rightarrow> d
           | Some whatsappNumberId \<Rightarrow>
               if whatsappNumberId = 0 then d
               else processMessages now stringify whatsappNumberId v
                      (processStatuses now (cv_statuses v) d)))"

text \<open>
  The POST handler: the HTTP status and the database afterwards, for a database that is
  available and whose statements succeed; \<open>now\<close> is the wall clock of the call. The
  detached \<open>dispatchIntegrationEvent\<close> writes to no table and is left out.
\<close>

definition webhookPost ::
  "(string \<Rightarrow> byte list \<Rightarrow> byte list) \<Rightarrow> env \<Rightarrow> int \<Rightarrow> (json_arg \<Rightarrow> string) \<Rightarrow> request \<Rightarrow> db
     \<Rightarrow> nat \<times> db" where
  "webhookPost hmacSha256 e now stringify req d =
     (if verifySignature hmacSha256 e req
      then (200, fold (\<lambda>changes. fold (processChange now stringify) changes) (req_entry req) d)
      else (401, d))"

section \<open>Notions used in the statements\<close>

text \<open>A status event for a message id, as one element of \<open>value.statuses\<close>.\<close>

definition statusEvent :: "string \<Rightarrow> string \<Rightarrow> status_event" where
  "statusEvent msgId s = \<lparr>st_id = Some msgId, st_status = Some s\<rparr>"

text \<open>The campaigns table with \<open>f\<close> applied to the campaign \<open>cid\<close>.\<close>

definition bumpCampaign :: "nat \<Rightarrow> (campaign \<Rightarrow> campaign) \<Rightarrow> campaign list \<Rightarrow> campaign list" where
  "bumpCampaign cid f cs = map (\<lambda>c. if cp_id c = cid then f c else c) cs"

text \<open>
  The recognized kinds, on each transport: the \<open>m.type\<close> values of the webhook that name
  one of them (a contact card is \<open>contacts\<close> on the wire), and a bridge message that
  carries none of them.
\<close>

definition recognizedTypes :: "string list" where
  "recognizedTypes =
     [''text'', ''image'', ''video'', ''audio'', ''document'', ''sticker'', ''location'',
      ''contact'', ''contacts'']"

definition qrUnrecognized :: "wa_content option \<Rightarrow> bool" where
  "qrUnrecognized mo =
     (case mo of
        None \<Rightarrow> True
      | Some c \<Rightarrow>
          truthyStr (conversation c) = None \<and> truthyStr (extendedTextMessage c) = None
        \<and> imageMessage c = None \<and> videoMessage c = None
        \<and> \<not> audioMessage c \<and> \<not> documentMessage c \<and> \<not> stickerMessage c
        \<and> locationMessage c = None \<and> contactMessage c = None)"

definition typeAndContent :: "chatMessage \<Rightarrow> string \<times> string option" where
  "typeAndContent r = (msg_messageType r, msg_content r)"

section \<open>Sample data\<close>

text \<open>Concrete rows and events, used where a statement is run on an input.\<close>

definition emptyDb :: db where
  "emptyDb =
     \<lparr> leads = [], conversations = [], chatMessages = [], pipelines = [],
       pipelineStages = [], campaignRecipients = [], campaigns = [],
       whatsappConnections = [] \<rparr>"

definition noContent :: wa_content where
  "noContent =
     \<lparr> conversation = None, extendedTextMessage = None, imageMessage = None,
       videoMessage = None, audioMessage = False, documentMessage = False,
       stickerMessage = False, locationMessage = None, contactMessage = None,
       reactionMessage = None, pollCreationMessage = None \<rparr>"

definition qrMessage :: "string \<Rightarrow> string \<Rightarrow> wa_content \<Rightarrow> wa_message" where
  "qrMessage jid mid c =
     \<lparr> wm_key = \<lparr>remoteJid = Some jid, key_id = mid, fromMe = False\<rparr>,
       wm_message = Some c,
       wm_messageTimestamp = Some 1700000000,
       wm_pushName = Some ''Ana'' \<rparr>"

definition textContent :: "string \<Rightarrow> wa_content" where
  "textContent t = noContent\<lparr>conversation := Some t\<rparr>"

definition reactionContent :: wa_content where
  "reactionContent = noContent\<lparr>reactionMessage := Some ''+1''\<rparr>"

definition pollContent :: wa_content where
  "pollContent = noContent\<lparr>pollCreationMessage := Some ''Viernes o sabado?''\<rparr>"

text \<open>A function in the place of HMAC-SHA256, with a result of 32 bytes.\<close>

definition standInHmac :: "string \<Rightarrow> byte list \<Rightarrow> byte list" where
  "standInHmac secret raw = replicate 32 171"

definition emptyStageDb :: db where
  "emptyStageDb =
     emptyDb\<lparr>pipelines := [\<lparr>pl_id = 2, pl_isDefault = True\<rparr>],
             pipelineStages := [\<lparr>ps_id = 10, ps_pipelineId = 2, ps_order = 0\<rparr>]\<rparr>"

definition stagedLead :: "nat \<Rightarrow> string \<Rightarrow> int \<Rightarrow> lead" where
  "stagedLead i phone k =
     \<lparr> lead_id = i, lead_name = phone, lead_phone = phone, lead_country = ''Unknown'',
       lead_pipelineStageId = Some 10, lead_kanbanOrder = k, lead_source = ''whatsapp_inbound'',
       lead_createdAt = 1600000000000, lead_updatedAt = 1600000000000,
       lead_lastContactedAt = None \<rparr>"

definition busyStageDb :: db where
  "busyStageDb =
     emptyStageDb\<lparr>leads := [stagedLead 1 ''+5215500000001'' 3,
                            stagedLead 2 ''+5215500000002'' 5]\<rparr>"

definition routedDb :: db where
  "routedDb =
     emptyDb\<lparr>whatsappConnections :=
       [\<lparr>wc_phoneNumberId = ''106540352242922'', wc_whatsappNumberId = Some 1\<rparr>]\<rparr>"

definition cloudMessage :: "string \<Rightarrow> string \<Rightarrow> string \<Rightarrow> cloud_message" where
  "cloudMessage ty mid body =
     \<lparr> cm_type = Some ty, cm_id = Some mid, cm_from = Some ''5215512345678'',
       cm_text_body = Some body, cm_media = [], cm_location = None, cm_contacts = None \<rparr>"

definition changeOf :: "status_event list \<Rightarrow> cloud_message list \<Rightarrow> change_value" where
  "changeOf sts ms =
     \<lparr> cv_phone_number_id = Some ''106540352242922'', cv_statuses = sts, cv_messages = ms,
       cv_contacts = [] \<rparr>"

definition requestOf :: "change_value \<Rightarrow> request" where
  "requestOf v = \<lparr>req_signature = None, req_rawBody = None, req_entry = [[v]]\<rparr>"

definition noSecret :: env where
  "noSecret = \<lparr>whatsappAppSecret = None\<rparr>"

definition archivedConversation :: conversation where
  "archivedConversation =
     \<lparr> conv_id = 4, conv_channel = ''whatsapp'', conv_whatsappNumberId = 1,
       conv_whatsappConnectionType = ''api'', conv_externalChatId = None, conv_leadId = None,
       conv_contactPhone = ''5215512345678'', conv_contactName = Some ''Ana'',
       conv_unreadCount = 0, conv_lastMessageAt = Some 1600000000000,
       conv_status = ''archived'' \<rparr>"

definition outboundRow :: chatMessage where
  "outboundRow =
     \<lparr> msg_id = 9, msg_conversationId = 4, msg_whatsappNumberId = 1,
       msg_whatsappConnectionType = ''api'', msg_direction = ''outbound'',
       msg_messageType = ''text'', msg_content = Some ''hola'', msg_mediaUrl = None,
       msg_mediaMimeType = None, msg_latitude = None, msg_longitude = None,
       msg_locationName = None, msg_whatsappMessageId = Some ''wamid.B'',
       msg_status = ''sent'', msg_sentAt = Some 1700000000000, msg_deliveredAt = None,
       msg_readAt = None, msg_createdAt = Some 1700000000000 \<rparr>"

definition pendingRecipient :: campaignRecipient where
  "pendingRecipient =
     \<lparr> cr_id = 3, cr_campaignId = 7, cr_whatsappMessageId = Some ''wamid.C'',
       cr_status = Some ''pending'', cr_sentAt = None, cr_deliveredAt = None,
       cr_readAt = None, cr_errorMessage = None \<rparr>"

definition campaignDb :: db where
  "campaignDb =
     emptyDb\<lparr>campaignRecipients := [pendingRecipient],
             campaigns := [\<lparr>cp_id = 7, cp_messagesDelivered = 0, cp_messagesRead = 0,
                            cp_messagesFailed = 0\<rparr>]\<rparr>"

text \<open>The defining equations, for running the handlers on the sample data.\<close>

lemmas helper_defs =
  startsWith_def split_first_def truthyStr_def strOrEmpty_def nextId_def newDate_def

lemmas qr_defs =
  handleIncomingMessage_def isSkippedJid_def existsQrMessage_def messageTime_def
  phoneOfJid_def contactNameOf_def resolveLead_def findLeadByPhone_def newLead_def
  touchLead_def defaultPlacement_def stagesOf_def kanbanOrdersIn_def
  resolveConversation_def findQrConversation_def isQrConversation_def
  conversationUpdates_def newQrConversation_def insertChatMessage_def qrChatMessage_def
  detectType_def messageText_def captionOf_def placeholder_def

lemmas api_defs =
  webhookPost_def verifySignature_def processChange_def
  getWhatsappNumberIdByPhoneNumberId_def processStatuses_def processStatus_def
  updateMessageStatus_def statusPatch_def trackCampaign_def findRecipient_def
  currentStatus_def updateRecipient_def updateCampaign_def incDelivered_def incRead_def
  incFailed_def processMessages_def contactPhoneOf_def contactNameOfChange_def
  upsertApiConversation_def foundConversationId_def findApiConversation_def
  isApiConversation_def newApiConversation_def bumpApiConversation_def
  insertApiMessage_def apiChatMessage_def normalizeMessage_def emptyNormalized_def
  mediaField_def

lemmas sample_defs =
  statusEvent_def bumpCampaign_def recognizedTypes_def qrUnrecognized_def
  typeAndContent_def emptyDb_def noContent_def qrMessage_def textContent_def
  reactionContent_def pollContent_def emptyStageDb_def stagedLead_def busyStageDb_def
  routedDb_def cloudMessage_def
  changeOf_def requestOf_def noSecret_def archivedConversation_def outboundRow_def
  pendingRecipient_def campaignDb_def

section \<open>Lists and tables\<close>

lemma find_append:
  "find P (xs @ ys) = (case find P xs of None \<Rightarrow> find P ys | Some x \<Rightarrow> Some x)"
  by (induction xs) simp_all


lemma nextId_greater: "x \<in> set ids \<Longrightarrow> x < nextId ids"
proof -
  assume "x \<in> set ids"
  then have "x \<le> Max (set (0 # ids))" by simp
  then show ?thesis
    unfolding nextId_def Max.set_eq_fold by simp
qed

lemma nextId_fresh: "nextId ids \<notin> set ids"
  using nextId_greater [of "nextId ids" ids] by auto

section \<open>Signature verification\<close>

lemma unhex_hexDigit_upto: "list_all (\<lambda>n. unhex (hexDigit n) = Some n) [0..<16]"
  by code_simp

lemma unhex_hexDigit: "n < 16 \<Longrightarrow> unhex (hexDigit n) = Some n"
  using unhex_hexDigit_upto by (simp add: list_all_iff)

lemma bufferFromHex_hexOfByte:
  "bufferFromHex (hexOfByte b @ rest) = b # bufferFromHex rest"
proof -
  have lt: "unat b < 256" using unsigned_less [of b, where ?'a = nat] by simp
  then have hi: "unat b div 16 < 16" by simp
  have lo: "unat b mod 16 < 16" by simp
  have "(of_nat (unat b div 16 * 16 + unat b mod 16) :: byte) = b"
    by simp
  then show ?thesis
    by (simp add: hexOfByte_def unhex_hexDigit [OF hi] unhex_hexDigit [OF lo])
qed

text \<open>Decoding the hexadecimal digest gives the digest's bytes back.\<close>

lemma bufferFromHex_digestHex: "bufferFromHex (digestHex bs) = bs"
  by (induction bs) (simp_all add: digestHex_def bufferFromHex_hexOfByte)

text \<open>
  The decoding is lenient: a single character after the digest, or a pair that is not
  hexadecimal, ends it without an error.
\<close>

lemma bufferFromHex_tail:
  "bufferFromHex (digestHex bs @ [c]) = bs"
  "unhex c = None \<Longrightarrow> bufferFromHex (digestHex bs @ c # rest) = bs"
proof -
  show "bufferFromHex (digestHex bs @ [c]) = bs"
    by (induction bs) (simp_all add: digestHex_def bufferFromHex_hexOfByte)
  show "bufferFromHex (digestHex bs @ c # rest) = bs" if "unhex c = None"
  proof (induction bs)
    case Nil
    from that show ?case by (cases rest) (simp_all add: digestHex_def)
  next
    case (Cons b bs)
    then show ?case
      using bufferFromHex_hexOfByte [of b "digestHex bs @ c # rest"]
      by (simp add: digestHex_def)
  qed
qed

lemma startsWith_iff: "startsWith s p \<longleftrightarrow> (\<exists>r. s = p @ r)"
  unfolding startsWith_def
  by (metis append_eq_conv_conj)

text \<open>
  C9, amended. \<open>verifySignature\<close> is a total boolean function (the one exception that
  can arise, from comparing buffers of different lengths, is caught and gives false). It
  is true when no app secret is configured. With a secret it is true exactly when the
  header is \<open>sha256=\<close> followed by a signature, the raw body is present and not empty,
  and the bytes that \<open>Buffer.from(signature, "hex")\<close> decodes from the signature are the
  HMAC-SHA256 of the raw body under the secret; so a header without the prefix, a missing
  or empty body, and decoded bytes of another length or value all give false.
\<close>

theorem verifySignature_exact:
  "verifySignature h e req \<longleftrightarrow>
     truthyStr (whatsappAppSecret e) = None \<or>
     (\<exists>secret sig raw.
         truthyStr (whatsappAppSecret e) = Some secret
       \<and> req_signature req = Some (''sha256='' @ sig)
       \<and> req_rawBody req = Some raw \<and> raw \<noteq> []
       \<and> bufferFromHex sig = h secret raw)"
proof (cases "truthyStr (whatsappAppSecret e)")
  case None
  then show ?thesis by (simp add: verifySignature_def)
next
  case (Some secret)
  note sec = this
  show ?thesis
  proof (cases "req_signature req")
    case None
    with sec show ?thesis by (simp add: verifySignature_def startsWith_def)
  next
    case (Some hd)
    note hd = this
    show ?thesis
    proof (cases "startsWith hd ''sha256=''")
      case False
      then have "\<And>sig. hd \<noteq> ''sha256='' @ sig" by (simp add: startsWith_iff)
      with False hd sec show ?thesis
        by (simp add: verifySignature_def)
    next
      case True
      then obtain sig where sig: "hd = ''sha256='' @ sig" by (auto simp: startsWith_iff)
      show ?thesis
      proof (cases "req_rawBody req")
        case None
        with True hd sec show ?thesis by (simp add: verifySignature_def)
      next
        case (Some raw)
        with True hd sec sig show ?thesis
          by (auto simp: verifySignature_def timingSafeEqual_def bufferFromHex_digestHex)
      qed
    qed
  qed
qed

text \<open>
  The header that carries the hexadecimal digest itself is accepted, and so is one that
  carries the digest followed by other characters, the first of them not hexadecimal:
  whatever the HMAC function is.
\<close>

lemma verifySignature_accepts_tail:
  assumes "whatsappAppSecret e = Some secret" and "secret \<noteq> []" and "raw \<noteq> []"
    and "req_signature req = Some (''sha256='' @ digestHex (h secret raw) @ c # rest)"
    and "unhex c = None"
    and "req_rawBody req = Some raw"
  shows "verifySignature h e req"
  using assms
  by (simp add: verifySignature_def truthyStr_def startsWith_def timingSafeEqual_def
      bufferFromHex_digestHex bufferFromHex_tail)

text \<open>
  C9, as the code has it. With a secret configured and a body present, the header
  \<open>sha256=\<close>, the 64 digits of the digest, then \<open>zz9\<close> is accepted, although its
  signature is 67 characters long and is not the digest.
\<close>

theorem lenient_signature_accepted:
  "verifySignature standInHmac \<lparr>whatsappAppSecret = Some ''s3cret''\<rparr>
     \<lparr>req_signature = Some (''sha256='' @ digestHex (standInHmac ''s3cret'' [1, 2, 3]) @ ''zz9''),
      req_rawBody = Some [1, 2, 3], req_entry = []\<rparr>
   \<and> length (digestHex (standInHmac ''s3cret'' [1, 2, 3]) @ ''zz9'') = 67
   \<and> length (digestHex (standInHmac ''s3cret'' [1, 2, 3])) = 64
   \<and> digestHex (standInHmac ''s3cret'' [1, 2, 3]) @ ''zz9''
       \<noteq> digestHex (standInHmac ''s3cret'' [1, 2, 3])"
proof -
  have z: "unhex CHR ''z'' = None" by (simp add: unhex_def)
  have len: "length (digestHex (standInHmac ''s3cret'' [1, 2, 3])) = 64"
    by (simp add: digestHex_def standInHmac_def hexOfByte_def length_concat comp_def sum_list_replicate)
  have "verifySignature standInHmac \<lparr>whatsappAppSecret = Some ''s3cret''\<rparr>
     \<lparr>req_signature = Some (''sha256='' @ digestHex (standInHmac ''s3cret'' [1, 2, 3]) @ ''zz9''),
      req_rawBody = Some [1, 2, 3], req_entry = []\<rparr>"
    by (rule verifySignature_accepts_tail [where secret = "''s3cret''" and raw = "[1, 2, 3]"
          and c = "CHR ''z''" and rest = "''z9''"]) (simp_all add: z)
  with len show ?thesis by simp
qed

text \<open>The header that carries exactly the digest:\<close>

lemma verifySignature_accepts_digest:
  assumes "whatsappAppSecret e = Some secret" and "secret \<noteq> []" and "raw \<noteq> []"
    and "req_signature req = Some (''sha256='' @ digestHex (h secret raw))"
    and "req_rawBody req = Some raw"
  shows "verifySignature h e req"
  using assms
  by (simp add: verifySignature_def truthyStr_def startsWith_def timingSafeEqual_def
      bufferFromHex_digestHex)

section \<open>Broadcast and LID identities are skipped\<close>

text \<open>
  C8. A QR-bridge message whose remote identity contains \<open>status@broadcast\<close> or \<open>@lid\<close>
  leaves the whole database, and so the leads, conversations and chat messages, exactly
  as it was.
\<close>

theorem skipped_identity_changes_nothing:
  assumes "remoteJid (wm_key m) = Some jid"
    and "str_includes jid ''status@broadcast'' \<or> str_includes jid ''@lid''"
  shows "handleIncomingMessage now userId m upsert d = d"
  using assms by (simp add: handleIncomingMessage_def isSkippedJid_def)

theorem skipped_identity_witness:
  "remoteJid (wm_key (qrMessage ''5215512345678@lid'' ''3EB0A1'' (textContent ''hola''))) =
     Some ''5215512345678@lid''
   \<and> (str_includes ''5215512345678@lid'' ''status@broadcast''
        \<or> str_includes ''5215512345678@lid'' ''@lid'')
   \<and> handleIncomingMessage 1700000005000 1
        (qrMessage ''5215512345678@lid'' ''3EB0A1'' (textContent ''hola'')) Notify emptyDb
      = emptyDb"
proof -
  have j: "remoteJid (wm_key (qrMessage ''5215512345678@lid'' ''3EB0A1'' (textContent ''hola''))) =
     Some ''5215512345678@lid''"
    by (simp add: qrMessage_def)
  have i: "str_includes ''5215512345678@lid'' ''status@broadcast''
        \<or> str_includes ''5215512345678@lid'' ''@lid''"
    by (simp add: startsWith_def)
  from skipped_identity_changes_nothing [OF j i] j i show ?thesis by blast
qed

section \<open>Campaign counters\<close>


lemma findRecipient_frame [simp]:
  "findRecipient msgId (updateCampaign cid g d) = findRecipient msgId d"
  "findRecipient msgId (updateMessageStatus t i s d) = findRecipient msgId d"
  by (simp_all add: findRecipient_def updateCampaign_def updateMessageStatus_def)

lemma campaigns_frame [simp]:
  "campaigns (updateRecipient rid f d) = campaigns d"
  "campaigns (updateMessageStatus t i s d) = campaigns d"
  "campaigns (updateCampaign cid g d) = bumpCampaign cid g (campaigns d)"
  by (simp_all add: updateRecipient_def updateCampaign_def updateMessageStatus_def
      bumpCampaign_def)











section \<open>The webhook counts one unread per change\<close>

lemma trackCampaign_frame:
  "conversations (trackCampaign t msgId s d) = conversations d"
  "chatMessages (trackCampaign t msgId s d) = chatMessages d"
  by (simp_all add: trackCampaign_def updateCampaign_def updateRecipient_def Let_def
      split: option.split)

lemma processStatus_frame:
  "conversations (processStatus t st d) = conversations d"
  "length (chatMessages (processStatus t st d)) = length (chatMessages d)"
  by (simp_all add: processStatus_def Let_def trackCampaign_frame updateMessageStatus_def)

lemma processStatuses_frame:
  "conversations (processStatuses t sts d) = conversations d"
  "length (chatMessages (processStatuses t sts d)) = length (chatMessages d)"
  unfolding processStatuses_def
  by (induction sts arbitrary: d) (simp_all add: processStatus_frame)

lemma insertApiMessages_frame:
  "conversations (fold (insertApiMessage t sf cid n) ms d) = conversations d"
  "length (chatMessages (fold (insertApiMessage t sf cid n) ms d)) =
     length (chatMessages d) + length ms"
  by (induction ms arbitrary: d) (simp_all add: insertApiMessage_def)

lemma upsertApiConversation_unread:
  "map conv_unreadCount (conversations (snd (upsertApiConversation t n phone name d))) =
     (case foundConversationId n phone d of
        None \<Rightarrow> map conv_unreadCount (conversations d) @ [1]
      | Some cid \<Rightarrow>
          map (\<lambda>r. if conv_id r = cid then conv_unreadCount r + 1 else conv_unreadCount r)
            (conversations d))"
  by (simp add: upsertApiConversation_def newApiConversation_def bumpApiConversation_def
      split: option.split)

lemma upsertApiConversation_chatMessages:
  "chatMessages (snd (upsertApiConversation t n phone name d)) = chatMessages d"
  by (simp add: upsertApiConversation_def split: option.split)

text \<open>
  C10. A change that is routed to a number and carries N >= 1 messages from a known
  contact phone inserts N chat message rows, while the unread counts of the conversations
  table change in one place only: a new conversation is added with unread count 1 when
  none is found, and otherwise the found conversation's count grows by exactly 1, whatever
  N is.
\<close>

theorem unread_once_per_change:
  assumes "truthyStr (cv_phone_number_id v) = Some phoneNumberId"
    and "getWhatsappNumberIdByPhoneNumberId phoneNumberId d = Some n"
    and "n \<noteq> 0"
    and "cv_messages v \<noteq> []"
    and "contactPhoneOf v \<noteq> []"
  shows "length (chatMessages (processChange t sf v d)) =
           length (chatMessages d) + length (cv_messages v)
       \<and> map conv_unreadCount (conversations (processChange t sf v d)) =
           (case foundConversationId n (contactPhoneOf v) d of
              None \<Rightarrow> map conv_unreadCount (conversations d) @ [1]
            | Some cid \<Rightarrow>
                map (\<lambda>r. if conv_id r = cid then conv_unreadCount r + 1 else conv_unreadCount r)
                  (conversations d))"
proof -
  let ?d0 = "processStatuses t (cv_statuses v) d"
  let ?u = "upsertApiConversation t n (contactPhoneOf v) (contactNameOfChange v) ?d0"
  have pc: "processChange t sf v d =
      fold (insertApiMessage t sf (fst ?u) n) (cv_messages v) (snd ?u)"
    using assms by (simp add: processChange_def processMessages_def split_beta)
  have found: "foundConversationId n (contactPhoneOf v) ?d0 =
      foundConversationId n (contactPhoneOf v) d"
    by (simp add: foundConversationId_def findApiConversation_def processStatuses_frame)
  show ?thesis
    unfolding pc
    by (simp add: insertApiMessages_frame upsertApiConversation_unread
        upsertApiConversation_chatMessages processStatuses_frame found split: option.split)
qed

theorem unread_once_per_change_witness:
  "truthyStr (cv_phone_number_id
      (changeOf [] [cloudMessage ''text'' ''wamid.D1'' ''uno'',
                    cloudMessage ''text'' ''wamid.D2'' ''dos'',
                    cloudMessage ''text'' ''wamid.D3'' ''tres''])) = Some ''106540352242922''
   \<and> getWhatsappNumberIdByPhoneNumberId ''106540352242922''
        (routedDb\<lparr>conversations := [archivedConversation]\<rparr>) = Some 1
   \<and> (1::nat) \<noteq> 0
   \<and> cv_messages
        (changeOf [] [cloudMessage ''text'' ''wamid.D1'' ''uno'',
                      cloudMessage ''text'' ''wamid.D2'' ''dos'',
                      cloudMessage ''text'' ''wamid.D3'' ''tres'']) \<noteq> []
   \<and> contactPhoneOf
        (changeOf [] [cloudMessage ''text'' ''wamid.D1'' ''uno'',
                      cloudMessage ''text'' ''wamid.D2'' ''dos'',
                      cloudMessage ''text'' ''wamid.D3'' ''tres'']) \<noteq> []
   \<and> length (chatMessages (processChange 1700000001000 (\<lambda>a. ''raw'')
        (changeOf [] [cloudMessage ''text'' ''wamid.D1'' ''uno'',
                      cloudMessage ''text'' ''wamid.D2'' ''dos'',
                      cloudMessage ''text'' ''wamid.D3'' ''tres''])
        (routedDb\<lparr>conversations := [archivedConversation]\<rparr>))) = 3
   \<and> map conv_unreadCount (conversations (processChange 1700000001000 (\<lambda>a. ''raw'')
        (changeOf [] [cloudMessage ''text'' ''wamid.D1'' ''uno'',
                      cloudMessage ''text'' ''wamid.D2'' ''dos'',
                      cloudMessage ''text'' ''wamid.D3'' ''tres''])
        (routedDb\<lparr>conversations := [archivedConversation]\<rparr>))) = [1]"
proof -
  let ?v = "changeOf [] [cloudMessage ''text'' ''wamid.D1'' ''uno'',
                      cloudMessage ''text'' ''wamid.D2'' ''dos'',
                      cloudMessage ''text'' ''wamid.D3'' ''tres'']"
  let ?d = "routedDb\<lparr>conversations := [archivedConversation]\<rparr>"
  have h1: "truthyStr (cv_phone_number_id ?v) = Some ''106540352242922''"
    by (simp add: changeOf_def truthyStr_def)
  have h2: "getWhatsappNumberIdByPhoneNumberId ''106540352242922'' ?d = Some 1"
    by (simp add: getWhatsappNumberIdByPhoneNumberId_def routedDb_def emptyDb_def)
  have h3: "(1::nat) \<noteq> 0" by simp
  have h4: "cv_messages ?v \<noteq> []" by (simp add: changeOf_def)
  have h5: "contactPhoneOf ?v \<noteq> []"
    by (simp add: contactPhoneOf_def changeOf_def cloudMessage_def strOrEmpty_def)
  have f: "foundConversationId 1 (contactPhoneOf ?v) ?d = Some 4"
    by (simp add: foundConversationId_def findApiConversation_def isApiConversation_def
        contactPhoneOf_def changeOf_def cloudMessage_def strOrEmpty_def routedDb_def emptyDb_def
        archivedConversation_def)
  have c: "conversations ?d = [archivedConversation]" and m: "chatMessages ?d = []"
    by (simp_all add: routedDb_def emptyDb_def)
  have len: "length (cv_messages ?v) = 3" by (simp add: changeOf_def)
  from unread_once_per_change [OF h1 h2 h3 h4 h5, of 1700000001000 "\<lambda>a. ''raw''"]
  have "length (chatMessages (processChange 1700000001000 (\<lambda>a. ''raw'') ?v ?d)) = 3"
    and "map conv_unreadCount (conversations (processChange 1700000001000 (\<lambda>a. ''raw'') ?v ?d)) = [1]"
    unfolding f c m len by (simp_all add: archivedConversation_def)
  with h1 h2 h3 h4 h5 show ?thesis by blast
qed

section \<open>Leads are found by phone before one is created\<close>

lemma resolveLead_frame:
  assumes "resolveLead t up phone name ts d = Inr (lid, d1)"
  shows "chatMessages d1 = chatMessages d" and "conversations d1 = conversations d"
  using assms by (auto simp: resolveLead_def split: option.splits if_splits)

lemma resolveConversation_frame:
  assumes "resolveConversation t u jid lid phone name up fm ts d = Inr (cid, d2)"
  shows "chatMessages d2 = chatMessages d" and "leads d2 = leads d"
  using assms by (auto simp: resolveConversation_def split: option.splits sum.splits)

text \<open>With a valid message time no step throws.\<close>

lemma resolveLead_valid:
  "\<exists>lid d1. resolveLead t up phone name (Some ts) d = Inr (lid, d1)"
  by (simp add: resolveLead_def split: option.split)

lemma conversationUpdates_valid:
  "\<exists>f. conversationUpdates t up fm (Some ts) c = Inr f"
  by (simp add: conversationUpdates_def split: option.split)

lemma resolveConversation_valid:
  "\<exists>cid d2. resolveConversation t u jid lid phone name up fm (Some ts) d = Inr (cid, d2)"
proof (cases "findQrConversation lid u jid d")
  case None
  then show ?thesis by (simp add: resolveConversation_def)
next
  case (Some c)
  obtain f where "conversationUpdates t up fm (Some ts) c = Inr f"
    using conversationUpdates_valid by blast
  with Some show ?thesis by (simp add: resolveConversation_def)
qed

text \<open>
  The leads after a message that is neither skipped nor a duplicate are those the lead
  step leaves, whether or not a later step throws.
\<close>

lemma handle_fresh_leads:
  assumes "remoteJid (wm_key m) = Some jid" and "\<not> isSkippedJid jid"
    and "\<not> existsQrMessage (key_id (wm_key m)) (chatMessages d)"
  shows "leads (handleIncomingMessage t u m up d) =
           (case resolveLead t up (phoneOfJid jid) (contactNameOf m)
                   (messageTime t (wm_messageTimestamp m)) d of
              Inl err \<Rightarrow> leads d
            | Inr r \<Rightarrow> leads (snd r))"
proof (cases "resolveLead t up (phoneOfJid jid) (contactNameOf m)
                (messageTime t (wm_messageTimestamp m)) d")
  case (Inl err)
  with assms show ?thesis by (simp add: handleIncomingMessage_def)
next
  case (Inr r)
  obtain lid d1 where r: "r = (lid, d1)" by (cases r)
  show ?thesis
  proof (cases "resolveConversation t u jid lid (phoneOfJid jid) (contactNameOf m) up
                  (fromMe (wm_key m)) (messageTime t (wm_messageTimestamp m)) d1")
    case (Inl err)
    with assms Inr r show ?thesis by (simp add: handleIncomingMessage_def)
  next
    case (Inr q)
    obtain cid d2 where q: "q = (cid, d2)" by (cases q)
    from resolveConversation_frame(2) [OF Inr [unfolded q]] have "leads d2 = leads d1" .
    with assms \<open>resolveLead t up (phoneOfJid jid) (contactNameOf m)
        (messageTime t (wm_messageTimestamp m)) d = Inr r\<close> r Inr q
    show ?thesis
      by (simp add: handleIncomingMessage_def insertChatMessage_def split: option.split)
  qed
qed

text \<open>With a valid message time the message row is appended.\<close>

lemma handle_fresh_messages:
  assumes "remoteJid (wm_key m) = Some jid" and "\<not> isSkippedJid jid"
    and "\<not> existsQrMessage (key_id (wm_key m)) (chatMessages d)"
    and "messageTime t (wm_messageTimestamp m) = Some ts"
  shows "\<exists>cid. chatMessages (handleIncomingMessage t u m up d) =
           chatMessages d @ [qrChatMessage t (nextId (map msg_id (chatMessages d))) cid u m ts]"
proof -
  obtain lid d1 where l: "resolveLead t up (phoneOfJid jid) (contactNameOf m) (Some ts) d
      = Inr (lid, d1)"
    using resolveLead_valid by blast
  obtain cid d2 where c: "resolveConversation t u jid lid (phoneOfJid jid) (contactNameOf m) up
      (fromMe (wm_key m)) (Some ts) d1 = Inr (cid, d2)"
    using resolveConversation_valid by blast
  have "chatMessages d2 = chatMessages d"
    using resolveLead_frame(1) [OF l] resolveConversation_frame(1) [OF c] by simp
  with assms l c have "chatMessages (handleIncomingMessage t u m up d) =
      chatMessages d @ [qrChatMessage t (nextId (map msg_id (chatMessages d))) cid u m ts]"
    by (simp add: handleIncomingMessage_def insertChatMessage_def)
  then show ?thesis by blast
qed

text \<open>
  With an Invalid Date and a phone no lead has, the insert of the lead throws and the
  database is left as it was.
\<close>

lemma invalid_time_unknown_phone:
  assumes "remoteJid (wm_key m) = Some jid"
    and "messageTime t (wm_messageTimestamp m) = None"
    and "findLeadByPhone (phoneOfJid jid) d = None"
  shows "handleIncomingMessage t u m up d = d"
  using assms by (simp add: handleIncomingMessage_def resolveLead_def)

lemma existsQrMessage_append:
  "existsQrMessage wid (ms @ [r]) \<longleftrightarrow>
     existsQrMessage wid ms
     \<or> (msg_whatsappMessageId r = Some wid \<and> msg_whatsappConnectionType r = ''qr'')"
  by (auto simp: existsQrMessage_def find_append split: option.splits)

lemma findLeadByPhone_None:
  "findLeadByPhone phone d = None \<longleftrightarrow> filter (\<lambda>l. lead_phone l = phone) (leads d) = []"
  by (auto simp add: findLeadByPhone_def find_None_iff filter_empty_conv)

lemma touch_fresh:
  assumes "lead_id l \<notin> lead_id ` set ls"
  shows "map (touchLead t (lead_id l)) (ls @ [l]) = ls @ [l\<lparr>lead_lastContactedAt := Some t\<rparr>]"
  using assms by (induction ls) (auto simp: touchLead_def)

text \<open>
  C5. Two bridge messages from real identities with the same phone, the first with a
  timestamp that is a valid date, the second not a redelivery of the first, arriving when
  no lead has that phone: the first appends one lead \<open>l\<close> for the phone; after the second
  the leads table is the same but for \<open>l\<close>, whose \<open>lastContactedAt\<close> alone is set to now
  when the second is a \<open>notify\<close> event and which is untouched when it is an \<open>append\<close>
  event; exactly one lead has that phone.
\<close>

theorem lead_dedup:
  assumes "remoteJid (wm_key m1) = Some jid1" and "\<not> isSkippedJid jid1"
    and "remoteJid (wm_key m2) = Some jid2" and "\<not> isSkippedJid jid2"
    and "phoneOfJid jid1 = phone" and "phoneOfJid jid2 = phone"
    and "findLeadByPhone phone d = None"
    and "\<not> existsQrMessage (key_id (wm_key m1)) (chatMessages d)"
    and "\<not> existsQrMessage (key_id (wm_key m2)) (chatMessages d)"
    and "key_id (wm_key m2) \<noteq> key_id (wm_key m1)"
    and "messageTime t1 (wm_messageTimestamp m1) = Some ts1"
  shows "\<exists>l. lead_phone l = phone
           \<and> leads (handleIncomingMessage t1 u1 m1 up1 d) = leads d @ [l]
           \<and> leads (handleIncomingMessage t2 u2 m2 up2 (handleIncomingMessage t1 u1 m1 up1 d)) =
               leads d @ [if up2 = Notify then l\<lparr>lead_lastContactedAt := Some t2\<rparr> else l]
           \<and> length (filter (\<lambda>x. lead_phone x = phone)
                (leads (handleIncomingMessage t2 u2 m2 up2
                          (handleIncomingMessage t1 u1 m1 up1 d))))
               = 1"
proof -
  let ?d1 = "handleIncomingMessage t1 u1 m1 up1 d"
  let ?d2 = "handleIncomingMessage t2 u2 m2 up2 ?d1"
  let ?l = "newLead t1 d phone (contactNameOf m1) ts1"
  have phone: "lead_phone ?l = phone" by (simp add: newLead_def)
  have l1: "leads ?d1 = leads d @ [?l]"
    using handle_fresh_leads [OF assms(1,2,8), of t1 u1 up1] assms(5,7,11)
    by (simp add: resolveLead_def)
  obtain cid where m1: "chatMessages ?d1 = chatMessages d @
      [qrChatMessage t1 (nextId (map msg_id (chatMessages d))) cid u1 m1 ts1]"
    using handle_fresh_messages [OF assms(1,2,8,11), of u1 up1] by blast
  have fresh2: "\<not> existsQrMessage (key_id (wm_key m2)) (chatMessages ?d1)"
    using assms(9,10) by (simp add: m1 existsQrMessage_append qrChatMessage_def)
  have found: "findLeadByPhone phone ?d1 = Some ?l"
    using assms(7) phone by (simp add: findLeadByPhone_def l1 find_append)
  have idfresh: "lead_id ?l \<notin> lead_id ` set (leads d)"
    using nextId_fresh [of "map lead_id (leads d)"] by (simp add: newLead_def)
  have l2: "leads ?d2 =
      leads d @ [if up2 = Notify then ?l\<lparr>lead_lastContactedAt := Some t2\<rparr> else ?l]"
  proof -
    have "leads ?d2 =
        (if up2 = Notify then map (touchLead t2 (lead_id ?l)) (leads ?d1) else leads ?d1)"
      using handle_fresh_leads [OF assms(3,4) fresh2, of t2 u2 up2] assms(6) found
      by (simp add: resolveLead_def)
    then show ?thesis
      unfolding l1 touch_fresh [OF idfresh] by simp
  qed
  have none: "filter (\<lambda>x. lead_phone x = phone) (leads d) = []"
    using assms(7) by (simp add: findLeadByPhone_None)
  have one: "length (filter (\<lambda>x. lead_phone x = phone) (leads ?d2)) = 1"
    using phone by (simp add: l2 none)
  from phone l1 l2 one show ?thesis by blast
qed

theorem lead_dedup_witness:
  "remoteJid (wm_key (qrMessage ''5215512345678@s.whatsapp.net'' ''3EB0A1'' (textContent ''hola'')))
     = Some ''5215512345678@s.whatsapp.net''
   \<and> \<not> isSkippedJid ''5215512345678@s.whatsapp.net''
   \<and> remoteJid (wm_key (qrMessage ''5215512345678@s.whatsapp.net'' ''3EB0A2'' (textContent ''sigo'')))
     = Some ''5215512345678@s.whatsapp.net''
   \<and> phoneOfJid ''5215512345678@s.whatsapp.net'' = ''+5215512345678''
   \<and> findLeadByPhone ''+5215512345678'' emptyDb = None
   \<and> \<not> existsQrMessage (key_id (wm_key
          (qrMessage ''5215512345678@s.whatsapp.net'' ''3EB0A1'' (textContent ''hola''))))
        (chatMessages emptyDb)
   \<and> \<not> existsQrMessage (key_id (wm_key
          (qrMessage ''5215512345678@s.whatsapp.net'' ''3EB0A2'' (textContent ''sigo''))))
        (chatMessages emptyDb)
   \<and> key_id (wm_key (qrMessage ''5215512345678@s.whatsapp.net'' ''3EB0A2'' (textContent ''sigo'')))
     \<noteq> key_id (wm_key (qrMessage ''5215512345678@s.whatsapp.net'' ''3EB0A1'' (textContent ''hola'')))
   \<and> messageTime 1700000005000 (wm_messageTimestamp
         (qrMessage ''5215512345678@s.whatsapp.net'' ''3EB0A1'' (textContent ''hola'')))
       = Some 1700000000000
   \<and> length (filter (\<lambda>x. lead_phone x = ''+5215512345678'')
        (leads (handleIncomingMessage 1700000009000 1
           (qrMessage ''5215512345678@s.whatsapp.net'' ''3EB0A2'' (textContent ''sigo'')) Notify
           (handleIncomingMessage 1700000005000 1
              (qrMessage ''5215512345678@s.whatsapp.net'' ''3EB0A1'' (textContent ''hola''))
              Notify emptyDb)))) = 1
   \<and> map lead_lastContactedAt
        (leads (handleIncomingMessage 1700000009000 1
           (qrMessage ''5215512345678@s.whatsapp.net'' ''3EB0A2'' (textContent ''sigo'')) Notify
           (handleIncomingMessage 1700000005000 1
              (qrMessage ''5215512345678@s.whatsapp.net'' ''3EB0A1'' (textContent ''hola''))
              Notify emptyDb))) = [Some 1700000009000]"
proof -
  let ?jid = "''5215512345678@s.whatsapp.net''"
  let ?m1 = "qrMessage ?jid ''3EB0A1'' (textContent ''hola'')"
  let ?m2 = "qrMessage ?jid ''3EB0A2'' (textContent ''sigo'')"
  have h1: "remoteJid (wm_key ?m1) = Some ?jid" by (simp add: qrMessage_def)
  have h2: "\<not> isSkippedJid ?jid" by (simp add: isSkippedJid_def startsWith_def)
  have h3: "remoteJid (wm_key ?m2) = Some ?jid" by (simp add: qrMessage_def)
  have h5: "phoneOfJid ?jid = ''+5215512345678''" by (simp add: phoneOfJid_def split_first_def)
  have h7: "findLeadByPhone ''+5215512345678'' emptyDb = None"
    by (simp add: findLeadByPhone_def emptyDb_def)
  have h8: "\<not> existsQrMessage (key_id (wm_key ?m1)) (chatMessages emptyDb)"
    by (simp add: existsQrMessage_def emptyDb_def)
  have h9: "\<not> existsQrMessage (key_id (wm_key ?m2)) (chatMessages emptyDb)"
    by (simp add: existsQrMessage_def emptyDb_def)
  have h10: "key_id (wm_key ?m2) \<noteq> key_id (wm_key ?m1)" by (simp add: qrMessage_def)
  have h11: "messageTime 1700000005000 (wm_messageTimestamp ?m1) = Some 1700000000000"
    by (simp add: qrMessage_def messageTime_def newDate_def)
  from lead_dedup [OF h1 h2 h3 h2 h5 h5 h7 h8 h9 h10 h11, of 1 Notify 1700000009000 1 Notify]
  have "length (filter (\<lambda>x. lead_phone x = ''+5215512345678'')
        (leads (handleIncomingMessage 1700000009000 1 ?m2 Notify
           (handleIncomingMessage 1700000005000 1 ?m1 Notify emptyDb)))) = 1"
    and "map lead_lastContactedAt
        (leads (handleIncomingMessage 1700000009000 1 ?m2 Notify
           (handleIncomingMessage 1700000005000 1 ?m1 Notify emptyDb))) = [Some 1700000009000]"
    by (auto simp: emptyDb_def)
  with h1 h2 h3 h5 h7 h8 h9 h10 h11 show ?thesis by blast
qed

section \<open>Placement of a new lead\<close>

lemma sqlMax_eq: "sqlMax xs = (if xs = [] then None else Some (Max (set xs)))"
proof (cases xs)
  case Nil
  then show ?thesis by simp
next
  case (Cons a list)
  have "fold max list a = Max (set (a # list))" by (simp only: Max.set_eq_fold)
  with Cons show ?thesis by simp
qed

lemma firstByOrder_None: "firstByOrder ss = None \<longleftrightarrow> ss = []"
  by (induction ss) (auto split: option.splits)

text \<open>\<open>firstByOrder\<close> picks a stage of least \<open>order\<close>.\<close>

lemma firstByOrder_Some:
  "firstByOrder ss = Some s \<Longrightarrow> s \<in> set ss \<and> (\<forall>t \<in> set ss. ps_order s \<le> ps_order t)"
proof (induction ss arbitrary: s)
  case Nil
  then show ?case by simp
next
  case (Cons a ss)
  show ?case
  proof (cases "firstByOrder ss")
    case None
    then have "ss = []" by (simp add: firstByOrder_None)
    with Cons.prems None show ?thesis by simp
  next
    case (Some b)
    from Cons.IH [OF Some] have b: "b \<in> set ss" "\<forall>t \<in> set ss. ps_order b \<le> ps_order t"
      by simp_all
    from Cons.prems Some have "s = (if ps_order a \<le> ps_order b then a else b)"
      by (auto split: if_splits)
    with b show ?thesis by (auto intro: order_trans)
  qed
qed

lemma newLead_placement:
  "case find pl_isDefault (pipelines d) of
     None \<Rightarrow>
       lead_pipelineStageId (newLead t d phone name ts) = None
       \<and> lead_kanbanOrder (newLead t d phone name ts) = 0
   | Some p \<Rightarrow>
       if stagesOf p d = []
       then lead_pipelineStageId (newLead t d phone name ts) = None
            \<and> lead_kanbanOrder (newLead t d phone name ts) = 0
       else (\<exists>s \<in> set (stagesOf p d).
               (\<forall>x \<in> set (stagesOf p d). ps_order s \<le> ps_order x)
             \<and> lead_pipelineStageId (newLead t d phone name ts) = Some (ps_id s)
             \<and> lead_kanbanOrder (newLead t d phone name ts) =
                 (if kanbanOrdersIn (ps_id s) d = [] then 1
                  else Max (set (kanbanOrdersIn (ps_id s) d)) + 1))"
proof (cases "find pl_isDefault (pipelines d)")
  case None
  then show ?thesis by (simp add: newLead_def defaultPlacement_def)
next
  case (Some p)
  note p = this
  show ?thesis
  proof (cases "firstByOrder (stagesOf p d)")
    case None
    then have "stagesOf p d = []" by (simp add: firstByOrder_None)
    with p None show ?thesis by (simp add: newLead_def defaultPlacement_def)
  next
    case (Some s)
    note s = this
    then have ne: "stagesOf p d \<noteq> []" using firstByOrder_None [of "stagesOf p d"] by auto
    from firstByOrder_Some [OF s] ne p s
    show ?thesis
      by (auto simp: newLead_def defaultPlacement_def sqlMax_eq intro!: bexI [of _ s])
  qed
qed

text \<open>
  C6, as the code has it. A stage without leads gives the new lead the order 1, not 0:
  the empty maximum is read as 0 and 1 is added.
\<close>

theorem empty_stage_order_is_one:
  "kanbanOrdersIn 10 emptyStageDb = []
   \<and> map lead_pipelineStageId (leads (handleIncomingMessage 1700000005000 1
        (qrMessage ''5215512345678@s.whatsapp.net'' ''3EB0A1'' (textContent ''hola'')) Notify
        emptyStageDb)) = [Some 10]
   \<and> map lead_kanbanOrder (leads (handleIncomingMessage 1700000005000 1
        (qrMessage ''5215512345678@s.whatsapp.net'' ''3EB0A1'' (textContent ''hola'')) Notify
        emptyStageDb)) = [1]"
  by (simp add: helper_defs qr_defs sample_defs Let_def)

text \<open>
  C6, amended. A bridge message from a real identity, not a duplicate, with a timestamp
  that is a valid date, from a phone no lead has, appends one lead for that phone. Without
  a default pipeline, or when the default pipeline has no stage, the lead has no stage
  and the order 0. Otherwise its stage is a stage of the default pipeline with the least
  \<open>order\<close>, and its kanban order is 1 when no lead is in that stage and the greatest
  order among the leads of that stage plus 1 when there are some.
\<close>

theorem new_lead_placement:
  assumes "remoteJid (wm_key m) = Some jid" and "\<not> isSkippedJid jid"
    and "\<not> existsQrMessage (key_id (wm_key m)) (chatMessages d)"
    and "findLeadByPhone (phoneOfJid jid) d = None"
    and "messageTime t (wm_messageTimestamp m) = Some ts"
  shows "\<exists>l. leads (handleIncomingMessage t u m up d) = leads d @ [l]
           \<and> lead_phone l = phoneOfJid jid
           \<and> (case find pl_isDefault (pipelines d) of
                 None \<Rightarrow> lead_pipelineStageId l = None \<and> lead_kanbanOrder l = 0
               | Some p \<Rightarrow>
                   if stagesOf p d = []
                   then lead_pipelineStageId l = None \<and> lead_kanbanOrder l = 0
                   else (\<exists>s \<in> set (stagesOf p d).
                           (\<forall>x \<in> set (stagesOf p d). ps_order s \<le> ps_order x)
                         \<and> lead_pipelineStageId l = Some (ps_id s)
                         \<and> lead_kanbanOrder l =
                             (if kanbanOrdersIn (ps_id s) d = [] then 1
                              else Max (set (kanbanOrdersIn (ps_id s) d)) + 1)))"
proof -
  let ?l = "newLead t d (phoneOfJid jid) (contactNameOf m) ts"
  have "leads (handleIncomingMessage t u m up d) = leads d @ [?l]"
    using handle_fresh_leads [OF assms(1,2,3), of t u up] assms(4,5)
    by (simp add: resolveLead_def)
  moreover have "lead_phone ?l = phoneOfJid jid" by (simp add: newLead_def)
  ultimately show ?thesis
    using newLead_placement [where d = d and t = t and phone = "phoneOfJid jid"
        and name = "contactNameOf m" and ts = ts]
    by blast
qed


theorem new_lead_placement_witness:
  "remoteJid (wm_key (qrMessage ''5215512345678@s.whatsapp.net'' ''3EB0A1'' (textContent ''hola'')))
     = Some ''5215512345678@s.whatsapp.net''
   \<and> \<not> isSkippedJid ''5215512345678@s.whatsapp.net''
   \<and> \<not> existsQrMessage (key_id (wm_key
          (qrMessage ''5215512345678@s.whatsapp.net'' ''3EB0A1'' (textContent ''hola''))))
        (chatMessages busyStageDb)
   \<and> findLeadByPhone (phoneOfJid ''5215512345678@s.whatsapp.net'') busyStageDb = None
   \<and> messageTime 1700000005000 (wm_messageTimestamp
         (qrMessage ''5215512345678@s.whatsapp.net'' ''3EB0A1'' (textContent ''hola'')))
       = Some 1700000000000
   \<and> map lead_pipelineStageId (leads (handleIncomingMessage 1700000005000 1
        (qrMessage ''5215512345678@s.whatsapp.net'' ''3EB0A1'' (textContent ''hola'')) Notify
        busyStageDb)) = [Some 10, Some 10, Some 10]
   \<and> map lead_kanbanOrder (leads (handleIncomingMessage 1700000005000 1
        (qrMessage ''5215512345678@s.whatsapp.net'' ''3EB0A1'' (textContent ''hola'')) Notify
        busyStageDb)) = [3, 5, 6]"
proof -
  let ?jid = "''5215512345678@s.whatsapp.net''"
  let ?m = "qrMessage ?jid ''3EB0A1'' (textContent ''hola'')"
  have h1: "remoteJid (wm_key ?m) = Some ?jid" by (simp add: qrMessage_def)
  have h2: "\<not> isSkippedJid ?jid" by (simp add: isSkippedJid_def startsWith_def)
  have h3: "\<not> existsQrMessage (key_id (wm_key ?m)) (chatMessages busyStageDb)"
    by (simp add: existsQrMessage_def sample_defs)
  have h4: "findLeadByPhone (phoneOfJid ?jid) busyStageDb = None"
    by (simp add: findLeadByPhone_def phoneOfJid_def split_first_def sample_defs)
  have h5: "messageTime 1700000005000 (wm_messageTimestamp ?m) = Some 1700000000000"
    by (simp add: qrMessage_def messageTime_def newDate_def)
  have p: "find pl_isDefault (pipelines busyStageDb) = Some \<lparr>pl_id = 2, pl_isDefault = True\<rparr>"
    by (simp add: sample_defs)
  have st: "stagesOf \<lparr>pl_id = 2, pl_isDefault = True\<rparr> busyStageDb =
      [\<lparr>ps_id = 10, ps_pipelineId = 2, ps_order = 0\<rparr>]"
    by (simp add: stagesOf_def sample_defs)
  have ks: "kanbanOrdersIn 10 busyStageDb = [3, 5]"
    by (simp add: kanbanOrdersIn_def sample_defs)
  have ls: "map lead_pipelineStageId (leads busyStageDb) = [Some 10, Some 10]"
    "map lead_kanbanOrder (leads busyStageDb) = [3, 5]"
    by (simp_all add: sample_defs)
  from new_lead_placement [OF h1 h2 h3 h4 h5, of 1 Notify]
  obtain l where l: "leads (handleIncomingMessage 1700000005000 1 ?m Notify busyStageDb) =
        leads busyStageDb @ [l]"
    and "lead_pipelineStageId l = Some 10" and "lead_kanbanOrder l = 6"
    by (auto simp: p st ks)
  then have "map lead_pipelineStageId (leads (handleIncomingMessage 1700000005000 1 ?m Notify
        busyStageDb)) = [Some 10, Some 10, Some 10]"
    and "map lead_kanbanOrder (leads (handleIncomingMessage 1700000005000 1 ?m Notify
        busyStageDb)) = [3, 5, 6]"
    by (simp_all add: ls)
  with h1 h2 h3 h4 h5 show ?thesis by blast
qed

section \<open>Messages of an unrecognized type\<close>

lemma qr_unrecognized_text:
  "qrUnrecognized mo \<Longrightarrow> detectType mo = ''text'' \<and> messageText mo = ''Media/Unknown''"
  by (auto simp: qrUnrecognized_def detectType_def messageText_def captionOf_def placeholder_def
      truthyStr_def split: option.splits)

lemma api_fallback:
  assumes "cm_type m = Some ty" and "ty \<notin> set recognizedTypes"
  shows "n_messageType (normalizeMessage sf m) = ''text''"
    and "n_content (normalizeMessage sf m) = Some (sf (JMessage m))"
  using assms by (simp_all add: normalizeMessage_def recognizedTypes_def emptyNormalized_def)

lemma typeAndContent_statusPatch: "typeAndContent (statusPatch t s r) = typeAndContent r"
  by (simp add: typeAndContent_def statusPatch_def)

lemma processStatus_typeAndContent:
  "map typeAndContent (chatMessages (processStatus t st d)) = map typeAndContent (chatMessages d)"
  by (simp add: processStatus_def Let_def trackCampaign_frame updateMessageStatus_def
      typeAndContent_statusPatch comp_def)

lemma processStatuses_typeAndContent:
  "map typeAndContent (chatMessages (processStatuses t sts d)) =
     map typeAndContent (chatMessages d)"
  unfolding processStatuses_def
  by (induction sts arbitrary: d) (simp_all add: processStatus_typeAndContent)

lemma insertApiMessages_typeAndContent:
  "map typeAndContent (chatMessages (fold (insertApiMessage t sf cid n) ms d)) =
     map typeAndContent (chatMessages d) @
     map (\<lambda>m. (n_messageType (normalizeMessage sf m), n_content (normalizeMessage sf m))) ms"
  by (induction ms arbitrary: d)
    (simp_all add: insertApiMessage_def apiChatMessage_def typeAndContent_def Let_def)

text \<open>Every message of a routed change is stored, in order, as it was normalized.\<close>

lemma processChange_stores_all:
  assumes "truthyStr (cv_phone_number_id v) = Some phoneNumberId"
    and "getWhatsappNumberIdByPhoneNumberId phoneNumberId d = Some n"
    and "n \<noteq> 0"
    and "contactPhoneOf v \<noteq> []"
  shows "map typeAndContent (chatMessages (processChange t sf v d)) =
     map typeAndContent (chatMessages d) @
     map (\<lambda>m. (n_messageType (normalizeMessage sf m), n_content (normalizeMessage sf m)))
       (cv_messages v)"
  using assms
  by (simp add: processChange_def processMessages_def split_beta insertApiMessages_typeAndContent
      upsertApiConversation_chatMessages processStatuses_typeAndContent)

text \<open>
  C7, as the code has it on the bridge path. A reaction and a poll, two messages of
  kinds outside the recognized ones and with different payloads, are both stored as
  \<open>text\<close> with the same content, the fixed placeholder \<open>Media/Unknown\<close>: the content is
  not a serialization of the payload.
\<close>

theorem qr_unknown_is_placeholder:
  "qrUnrecognized (Some reactionContent) \<and> qrUnrecognized (Some pollContent)
   \<and> map typeAndContent (chatMessages (handleIncomingMessage 1700000005000 1
      (qrMessage ''5215512345678@s.whatsapp.net'' ''3EB0A1'' reactionContent) Notify emptyDb))
     = [(''text'', Some ''Media/Unknown'')]
   \<and> map typeAndContent (chatMessages (handleIncomingMessage 1700000005000 1
      (qrMessage ''5215512345678@s.whatsapp.net'' ''3EB0A1'' pollContent) Notify emptyDb))
     = [(''text'', Some ''Media/Unknown'')]
   \<and> reactionContent \<noteq> pollContent"
  by (simp add: helper_defs qr_defs sample_defs Let_def)

text \<open>
  C7, amended. On the webhook path, in a change that is routed to a connected number and
  has a contact phone, every message is stored, in order, with its normalized type and
  content, and a message whose \<open>type\<close> names none of the recognized kinds is normalized to
  \<open>text\<close> with the serialized message as content. On the bridge path a message from a
  real identity, not a duplicate, with a timestamp that is a valid date, which carries
  none of the recognized kinds, is stored as \<open>text\<close> with the content \<open>Media/Unknown\<close>.
\<close>

theorem unrecognized_type_fallback:
  assumes "truthyStr (cv_phone_number_id v) = Some phoneNumberId"
    and "getWhatsappNumberIdByPhoneNumberId phoneNumberId d = Some n"
    and "n \<noteq> 0"
    and "contactPhoneOf v \<noteq> []"
    and "remoteJid (wm_key m) = Some jid" and "\<not> isSkippedJid jid"
    and "\<not> existsQrMessage (key_id (wm_key m)) (chatMessages d')"
    and "messageTime t' (wm_messageTimestamp m) = Some ts"
    and "qrUnrecognized (wm_message m)"
  shows "map typeAndContent (chatMessages (processChange t sf v d)) =
           map typeAndContent (chatMessages d) @
           map (\<lambda>c. (n_messageType (normalizeMessage sf c), n_content (normalizeMessage sf c)))
             (cv_messages v)
       \<and> (\<forall>c ty. cm_type c = Some ty \<and> ty \<notin> set recognizedTypes \<longrightarrow>
             n_messageType (normalizeMessage sf c) = ''text''
           \<and> n_content (normalizeMessage sf c) = Some (sf (JMessage c)))
       \<and> map typeAndContent (chatMessages (handleIncomingMessage t' u m up d')) =
           map typeAndContent (chatMessages d') @ [(''text'', Some ''Media/Unknown'')]"
proof (intro conjI allI impI)
  show "map typeAndContent (chatMessages (processChange t sf v d)) =
           map typeAndContent (chatMessages d) @
           map (\<lambda>c. (n_messageType (normalizeMessage sf c), n_content (normalizeMessage sf c)))
             (cv_messages v)"
    by (rule processChange_stores_all [OF assms(1-4)])
next
  fix c :: cloud_message and ty
  assume a: "cm_type c = Some ty \<and> ty \<notin> set recognizedTypes"
  then show "n_messageType (normalizeMessage sf c) = ''text''"
    using api_fallback(1) by blast
  from a show "n_content (normalizeMessage sf c) = Some (sf (JMessage c))"
    using api_fallback(2) by blast
next
  obtain cid where "chatMessages (handleIncomingMessage t' u m up d') =
      chatMessages d' @ [qrChatMessage t' (nextId (map msg_id (chatMessages d'))) cid u m ts]"
    using handle_fresh_messages [OF assms(5-8), of u up] by blast
  then show "map typeAndContent (chatMessages (handleIncomingMessage t' u m up d')) =
           map typeAndContent (chatMessages d') @ [(''text'', Some ''Media/Unknown'')]"
    using qr_unrecognized_text [OF assms(9)]
    by (simp add: typeAndContent_def qrChatMessage_def)
qed

theorem unrecognized_type_fallback_witness:
  "truthyStr (cv_phone_number_id (changeOf [] [cloudMessage ''reaction'' ''wamid.E'' ''x'']))
     = Some ''106540352242922''
   \<and> getWhatsappNumberIdByPhoneNumberId ''106540352242922'' routedDb = Some 1
   \<and> (1::nat) \<noteq> 0
   \<and> contactPhoneOf (changeOf [] [cloudMessage ''reaction'' ''wamid.E'' ''x'']) \<noteq> []
   \<and> remoteJid (wm_key (qrMessage ''5215512345678@s.whatsapp.net'' ''3EB0A1'' reactionContent))
       = Some ''5215512345678@s.whatsapp.net''
   \<and> \<not> isSkippedJid ''5215512345678@s.whatsapp.net''
   \<and> \<not> existsQrMessage (key_id (wm_key
          (qrMessage ''5215512345678@s.whatsapp.net'' ''3EB0A1'' reactionContent)))
        (chatMessages emptyDb)
   \<and> messageTime 1700000005000 (wm_messageTimestamp
         (qrMessage ''5215512345678@s.whatsapp.net'' ''3EB0A1'' reactionContent))
       = Some 1700000000000
   \<and> qrUnrecognized (wm_message
        (qrMessage ''5215512345678@s.whatsapp.net'' ''3EB0A1'' reactionContent))
   \<and> cm_type (cloudMessage ''reaction'' ''wamid.E'' ''x'') = Some ''reaction''
   \<and> ''reaction'' \<notin> set recognizedTypes
   \<and> map typeAndContent (chatMessages (processChange 1700000001000 (\<lambda>a. ''raw'')
        (changeOf [] [cloudMessage ''reaction'' ''wamid.E'' ''x'']) routedDb))
      = [(''text'', Some ''raw'')]
   \<and> map typeAndContent (chatMessages (handleIncomingMessage 1700000005000 1
        (qrMessage ''5215512345678@s.whatsapp.net'' ''3EB0A1'' reactionContent) Notify emptyDb))
      = [(''text'', Some ''Media/Unknown'')]"
proof -
  let ?v = "changeOf [] [cloudMessage ''reaction'' ''wamid.E'' ''x'']"
  let ?jid = "''5215512345678@s.whatsapp.net''"
  let ?m = "qrMessage ?jid ''3EB0A1'' reactionContent"
  have h1: "truthyStr (cv_phone_number_id ?v) = Some ''106540352242922''"
    by (simp add: changeOf_def truthyStr_def)
  have h2: "getWhatsappNumberIdByPhoneNumberId ''106540352242922'' routedDb = Some 1"
    by (simp add: getWhatsappNumberIdByPhoneNumberId_def routedDb_def emptyDb_def)
  have h3: "(1::nat) \<noteq> 0" by simp
  have h4: "contactPhoneOf ?v \<noteq> []"
    by (simp add: contactPhoneOf_def changeOf_def cloudMessage_def strOrEmpty_def)
  have h5: "remoteJid (wm_key ?m) = Some ?jid" by (simp add: qrMessage_def)
  have h6: "\<not> isSkippedJid ?jid" by (simp add: isSkippedJid_def startsWith_def)
  have h7: "\<not> existsQrMessage (key_id (wm_key ?m)) (chatMessages emptyDb)"
    by (simp add: existsQrMessage_def emptyDb_def)
  have h8: "messageTime 1700000005000 (wm_messageTimestamp ?m) = Some 1700000000000"
    by (simp add: qrMessage_def messageTime_def newDate_def)
  have h9: "qrUnrecognized (wm_message ?m)"
    by (simp add: qrUnrecognized_def qrMessage_def reactionContent_def noContent_def truthyStr_def)
  have k1: "cm_type (cloudMessage ''reaction'' ''wamid.E'' ''x'') = Some ''reaction''"
    by (simp add: cloudMessage_def)
  have k2: "''reaction'' \<notin> set recognizedTypes" by (simp add: recognizedTypes_def)
  have e: "chatMessages routedDb = []" "chatMessages emptyDb = []"
    "cv_messages ?v = [cloudMessage ''reaction'' ''wamid.E'' ''x'']"
    by (simp_all add: routedDb_def emptyDb_def changeOf_def)
  from unrecognized_type_fallback [OF h1 h2 h3 h4 h5 h6 h7 h8 h9,
      of 1700000001000 "\<lambda>a. ''raw''" 1 Notify] k1 k2
  have "map typeAndContent (chatMessages (processChange 1700000001000 (\<lambda>a. ''raw'') ?v routedDb))
      = [(''text'', Some ''raw'')]"
    and "map typeAndContent (chatMessages (handleIncomingMessage 1700000005000 1 ?m Notify emptyDb))
      = [(''text'', Some ''Media/Unknown'')]"
    unfolding e by simp_all
  with h1 h2 h3 h4 h5 h6 h7 h8 h9 k1 k2 show ?thesis by blast
qed

section \<open>Redelivery of one message\<close>

text \<open>
  On the bridge path a second delivery of a message whose timestamp is a valid date
  leaves the database as the first delivery left it, whatever the user and the mode.
\<close>

lemma qr_redelivery_noop:
  assumes "messageTime t1 (wm_messageTimestamp m) = Some ts"
  shows "handleIncomingMessage t2 u2 m up2 (handleIncomingMessage t1 u1 m up1 d) =
     handleIncomingMessage t1 u1 m up1 d"
proof (cases "remoteJid (wm_key m)")
  case None
  then show ?thesis by (simp add: handleIncomingMessage_def)
next
  case (Some jid)
  show ?thesis
  proof (cases "isSkippedJid jid \<or> existsQrMessage (key_id (wm_key m)) (chatMessages d)")
    case True
    with Some show ?thesis by (auto simp: handleIncomingMessage_def)
  next
    case False
    then obtain cid where "chatMessages (handleIncomingMessage t1 u1 m up1 d) =
        chatMessages d @ [qrChatMessage t1 (nextId (map msg_id (chatMessages d))) cid u1 m ts]"
      using handle_fresh_messages [OF Some _ _ assms, of d u1 up1] by blast
    then have "existsQrMessage (key_id (wm_key m))
        (chatMessages (handleIncomingMessage t1 u1 m up1 d))"
      by (simp add: existsQrMessage_append qrChatMessage_def)
    then show ?thesis
      using Some by (simp add: handleIncomingMessage_def [of t2])
  qed
qed

text \<open>
  C1, on the webhook path. The same request, with one text message \<open>wamid.A\<close>, posted
  twice: two chat message rows carry the id, and the conversation's unread count is 2.
\<close>

theorem api_redelivery_duplicates:
  "map msg_whatsappMessageId (chatMessages
      (snd (webhookPost h noSecret 1700000002000 sf
              (requestOf (changeOf [] [cloudMessage ''text'' ''wamid.A'' ''hola'']))
         (snd (webhookPost h noSecret 1700000001000 sf
              (requestOf (changeOf [] [cloudMessage ''text'' ''wamid.A'' ''hola'']))
              routedDb)))))
     = [Some ''wamid.A'', Some ''wamid.A'']
   \<and> map conv_unreadCount (conversations
      (snd (webhookPost h noSecret 1700000002000 sf
              (requestOf (changeOf [] [cloudMessage ''text'' ''wamid.A'' ''hola'']))
         (snd (webhookPost h noSecret 1700000001000 sf
              (requestOf (changeOf [] [cloudMessage ''text'' ''wamid.A'' ''hola'']))
              routedDb)))))
     = [2]"
  by (simp add: helper_defs api_defs sample_defs Let_def)

section \<open>Status events on a chat message\<close>

text \<open>The status handler writes the status of the event, whatever the row holds.\<close>

lemma statusPatch_overwrites:
  "s \<in> {''sent'', ''delivered'', ''read'', ''failed''} \<Longrightarrow> msg_status (statusPatch t s r) = s"
  by (auto simp: statusPatch_def)

text \<open>
  C2. The events \<open>read\<close>, \<open>delivered\<close>, \<open>sent\<close> for the message \<open>wamid.B\<close>, in this order
  in one webhook call: after \<open>read\<close> alone the row is \<open>read\<close>, after all three it is
  \<open>sent\<close>.
\<close>

theorem status_regresses_to_sent:
  "map msg_status (chatMessages
      (snd (webhookPost h noSecret 1700000003000 sf
              (requestOf (changeOf [statusEvent ''wamid.B'' ''read''] []))
              (routedDb\<lparr>chatMessages := [outboundRow]\<rparr>))))
     = [''read'']
   \<and> map msg_status (chatMessages
      (snd (webhookPost h noSecret 1700000003000 sf
              (requestOf (changeOf [statusEvent ''wamid.B'' ''read'',
                                    statusEvent ''wamid.B'' ''delivered'',
                                    statusEvent ''wamid.B'' ''sent''] []))
              (routedDb\<lparr>chatMessages := [outboundRow]\<rparr>))))
     = [''sent'']"
  by (simp add: helper_defs api_defs sample_defs Let_def)

section \<open>Merging an event into an existing conversation\<close>

text \<open>
  The bridge path: the rows with the id of the found conversation are assigned the
  \<open>updates\<close> built from it.
\<close>

lemma qr_existing_conversation:
  assumes "remoteJid (wm_key m) = Some jid" and "\<not> isSkippedJid jid"
    and "\<not> existsQrMessage (key_id (wm_key m)) (chatMessages d)"
    and "messageTime t (wm_messageTimestamp m) = Some ts"
    and "resolveLead t up (phoneOfJid jid) (contactNameOf m) (Some ts) d = Inr (lid, d1)"
    and "findQrConversation lid u jid d = Some c"
    and "conversationUpdates t up (fromMe (wm_key m)) (Some ts) c = Inr updates"
  shows "conversations (handleIncomingMessage t u m up d) =
           map (\<lambda>r. if conv_id r = conv_id c then updates r else r) (conversations d)"
proof -
  have "conversations d1 = conversations d"
    by (rule resolveLead_frame(2) [OF assms(5)])
  with assms show ?thesis
    by (simp add: handleIncomingMessage_def resolveConversation_def findQrConversation_def
        insertChatMessage_def)
qed

text \<open>
  The updates themselves: a live inbound event adds one to the unread count, sets
  \<open>lastMessageAt\<close> to now and the status to \<open>active\<close>; a history or outbound event leaves
  unread count and status alone and moves \<open>lastMessageAt\<close> to the later of the stored and
  the event's time.
\<close>

lemma conversationUpdates_live:
  "conversationUpdates t Notify False ts c =
     Inr (\<lambda>r. r\<lparr>conv_unreadCount := conv_unreadCount c + 1, conv_lastMessageAt := Some t,
                 conv_status := ''active''\<rparr>)"
  by (simp add: conversationUpdates_def)

lemma conversationUpdates_history:
  assumes "up = Append \<or> fm"
  shows "\<exists>updates. conversationUpdates t up fm (Some ts) c = Inr updates
           \<and> conv_unreadCount (updates c) = conv_unreadCount c
           \<and> conv_status (updates c) = conv_status c
           \<and> conv_lastMessageAt (updates c) =
               Some (case conv_lastMessageAt c of None \<Rightarrow> ts | Some cur \<Rightarrow> max cur ts)"
  using assms by (cases up; cases "conv_lastMessageAt c"; auto simp: conversationUpdates_def)

lemma bumpApiConversation_status:
  "conv_status (bumpApiConversation t name c) = conv_status c"
  by (simp add: bumpApiConversation_def)

text \<open>
  C4, on the webhook path. An inbound message for a number and phone whose conversation
  is archived: the unread count grows by one and \<open>lastMessageAt\<close> is now, but the status
  stays \<open>archived\<close>.
\<close>

theorem api_inbound_keeps_archived:
  "map (\<lambda>c. (conv_unreadCount c, conv_lastMessageAt c, conv_status c))
     (conversations
        (snd (webhookPost h noSecret 1700000001000 sf
                (requestOf (changeOf [] [cloudMessage ''text'' ''wamid.A'' ''hola'']))
                (routedDb\<lparr>conversations := [archivedConversation]\<rparr>))))
     = [(1, Some 1700000001000, ''archived'')]"
  by (simp add: helper_defs api_defs sample_defs Let_def)


end
